theory Spec2Isabelle
  imports Main "HOL-Library.Word"
begin

section \<open>Data model (types.go, errors.go, message.go, models.go)\<close>

text \<open>
  Go strings are byte sequences, and so is \<^typ>\<open>string\<close>. The Go zero value of a string
  field is the empty string. A field of a record carries a prefix naming its struct, since
  several structs of the package share field names: \<open>cb_Type\<close> is \<open>ContentBlock.Type\<close>.

  The floating-point fields of the package are only stored and copied by the functions
  modelled here, never computed with: a \<open>float32\<close> is kept as its 32 bits and a
  \<open>float64\<close> as its 64 bits, the zero value being the word 0.
\<close>

type_synonym float32 = "32 word"
type_synonym float64 = "64 word"

record ContentBlock =
  cb_Type :: string
  cb_Text :: string
  cb_Path :: string
  cb_Format :: string
  cb_Data :: string
  cb_MediaType :: string
  cb_Name :: string

record Message =
  msg_Role :: string
  msg_Content :: "ContentBlock list"

record InvokeRequest =
  req_Action :: string
  req_Model :: string
  req_Messages :: "Message list"
  req_System :: string
  req_MaxTokens :: "32 word"
  req_Temperature :: float32
  req_ExecutionRunID :: string
  req_ExecutionBudgetUsd :: float64

record ResponseContent =
  rc_Type :: string
  rc_Text :: string

record UsageInfo =
  usage_InputTokens :: "64 word"
  usage_OutputTokens :: "64 word"
  usage_EstimatedCostUsd :: float64

record BudgetInfo =
  bi_BudgetPeriod :: string
  bi_PeriodBudgetUsd :: float64
  bi_PeriodUsedUsd :: float64
  bi_PeriodRemainingUsd :: float64
  bi_ExecutionBudgetUsd :: float64
  bi_ExecutionUsedUsd :: float64
  bi_ExecutionRemainingUsd :: float64

record InvokeResponse =
  resp_Content :: "ResponseContent list"
  resp_Model :: string
  resp_Usage :: UsageInfo
  resp_BudgetRemaining :: BudgetInfo
  resp_StopReason :: string

text \<open>\<open>ErrorResponse\<close>: what the governor returns on errors. \<open>BudgetRemaining\<close> is a
  pointer in the source, \<open>None\<close> being nil.\<close>

record ErrorResponse =
  er_Error :: string
  er_Message :: string
  er_AllowedModels :: "string list"
  er_BudgetRemaining :: "BudgetInfo option"
  er_MaxSizeBytes :: "64 word"
  er_RetryAfterSec :: int
  er_Model :: string

record GovernorError =
  ge_Code :: string
  ge_Msg :: string
  ge_AllowedModels :: "string list"
  ge_BudgetRemaining :: "BudgetInfo option"
  ge_RetryAfterSec :: int

text \<open>The zero values that Go gives to the fields a composite literal leaves out.\<close>

definition zeroUsageInfo :: UsageInfo where
  "zeroUsageInfo = \<lparr>usage_InputTokens = 0, usage_OutputTokens = 0, usage_EstimatedCostUsd = 0\<rparr>"

definition zeroBudgetInfo :: BudgetInfo where
  "zeroBudgetInfo = \<lparr>bi_BudgetPeriod = [], bi_PeriodBudgetUsd = 0, bi_PeriodUsedUsd = 0,
     bi_PeriodRemainingUsd = 0, bi_ExecutionBudgetUsd = 0, bi_ExecutionUsedUsd = 0,
     bi_ExecutionRemainingUsd = 0\<rparr>"

definition zeroContentBlock :: ContentBlock where
  "zeroContentBlock = \<lparr>cb_Type = [], cb_Text = [], cb_Path = [], cb_Format = [], cb_Data = [],
     cb_MediaType = [], cb_Name = []\<rparr>"

definition zeroInvokeRequest :: InvokeRequest where
  "zeroInvokeRequest = \<lparr>req_Action = [], req_Model = [], req_Messages = [], req_System = [],
     req_MaxTokens = 0, req_Temperature = 0, req_ExecutionRunID = [],
     req_ExecutionBudgetUsd = 0\<rparr>"

definition zeroInvokeResponse :: InvokeResponse where
  "zeroInvokeResponse = \<lparr>resp_Content = [], resp_Model = [], resp_Usage = zeroUsageInfo,
     resp_BudgetRemaining = zeroBudgetInfo, resp_StopReason = []\<rparr>"

text \<open>The builders of message.go.\<close>

definition TextBlock :: "string \<Rightarrow> ContentBlock" where
  "TextBlock text = zeroContentBlock\<lparr>cb_Type := ''text'', cb_Text := text\<rparr>"

definition FileBlock :: "string \<Rightarrow> ContentBlock" where
  "FileBlock path = zeroContentBlock\<lparr>cb_Type := ''efs_document'', cb_Path := path\<rparr>"

definition ImageBlock :: "string \<Rightarrow> string \<Rightarrow> ContentBlock" where
  "ImageBlock format base64Data =
     zeroContentBlock\<lparr>cb_Type := ''image'', cb_Format := format, cb_Data := base64Data\<rparr>"

definition UserMessage :: "ContentBlock list \<Rightarrow> Message" where
  "UserMessage blocks = \<lparr>msg_Role = ''user'', msg_Content = blocks\<rparr>"

definition AssistantMessage :: "ContentBlock list \<Rightarrow> Message" where
  "AssistantMessage blocks = \<lparr>msg_Role = ''assistant'', msg_Content = blocks\<rparr>"

text \<open>models.go: the Bedrock inference profile ids.\<close>

definition ModelHaiku45 :: string where
  "ModelHaiku45 = ''us.anthropic.claude-haiku-4-5-20251001-v1:0''"

definition ModelSonnet45 :: string where
  "ModelSonnet45 = ''us.anthropic.claude-sonnet-4-5-20250929-v1:0''"

definition ModelSonnet46 :: string where
  "ModelSonnet46 = ''us.anthropic.claude-sonnet-4-6''"

definition ModelSonnet4 :: string where
  "ModelSonnet4 = ''us.anthropic.claude-sonnet-4-20250514-v1:0''"


section \<open>Functions of the Go standard library that the package calls\<close>

text \<open>\<open>strings.HasPrefix\<close> and \<open>strings.TrimPrefix\<close>.\<close>

definition HasPrefix :: "string \<Rightarrow> string \<Rightarrow> bool" where
  "HasPrefix s pre = (length s \<ge> length pre \<and> take (length pre) s = pre)"

definition TrimPrefix :: "string \<Rightarrow> string \<Rightarrow> string" where
  "TrimPrefix s pre = (if HasPrefix s pre then drop (length pre) s else s)"

text \<open>
  \<open>filepath.Ext\<close> on a system whose path separator is \<open>/\<close>: the loop
  \<^verbatim>\<open>for i := len(path) - 1; i >= 0 && !os.IsPathSeparator(path[i]); i-- {
      if path[i] == '.' { return path[i:] } }
  return ""\<close>
  \<open>Ext_from path n\<close> is the loop about to read index \<open>n - 1\<close>.
\<close>

fun Ext_from :: "string \<Rightarrow> nat \<Rightarrow> string" where
  "Ext_from path 0 = []"
| "Ext_from path (Suc i) =
     (if path ! i = CHR ''/'' then []
      else if path ! i = CHR ''.'' then drop i path
      else Ext_from path i)"

definition Ext :: "string \<Rightarrow> string" where
  "Ext path = Ext_from path (length path)"

text \<open>
  \<open>base64.StdEncoding\<close>: the alphabet of RFC 4648 with \<open>=\<close> padding. A byte is a
  \<^typ>\<open>char\<close>, read as a number by \<^const>\<open>of_char\<close>. \<open>EncodeToString\<close> packs three
  bytes into \<open>val = b0<<16 | b1<<8 | b2\<close> and emits the four 6-bit digits
  \<open>val>>18 & 0x3F\<close>, \<open>val>>12 & 0x3F\<close>, \<open>val>>6 & 0x3F\<close>, \<open>val & 0x3F\<close>; the
  shifts and masks are written as \<open>div\<close> and \<open>mod\<close> by powers of two. A remainder of one
  or two bytes is packed the same way and padded.
\<close>

definition encodeStd :: string where
  "encodeStd = ''ABCDEFGHIJKLMNOPQRSTUVWXYZabcdefghijklmnopqrstuvwxyz0123456789+/''"

definition enc6 :: "nat \<Rightarrow> char" where
  "enc6 i = encodeStd ! (i mod 64)"

fun EncodeToString :: "string \<Rightarrow> string" where
  "EncodeToString (b0 # b1 # b2 # src) =
     (let val = of_char b0 * 65536 + of_char b1 * 256 + of_char b2 :: nat
      in enc6 (val div 262144) # enc6 (val div 4096) # enc6 (val div 64) # enc6 val
           # EncodeToString src)"
| "EncodeToString [b0, b1] =
     (let val = of_char b0 * 65536 + of_char b1 * 256 :: nat
      in [enc6 (val div 262144), enc6 (val div 4096), enc6 (val div 64), CHR ''=''])"
| "EncodeToString [b0] =
     (let val = of_char b0 * 65536 :: nat
      in [enc6 (val div 262144), enc6 (val div 4096), CHR ''='', CHR ''=''])"
| "EncodeToString [] = []"

text \<open>
  \<open>DecodeString\<close>: the value of a digit is its position in the alphabet; four digits
  give three bytes; padding is accepted in the last quantum only; any other character or
  length is an error (\<open>None\<close>). The package never decodes: its tests do, to read the
  \<open>data\<close> field back.
\<close>

definition dec6 :: "char \<Rightarrow> nat option" where
  "dec6 c =
     (let n = of_char c :: nat in
      if 65 \<le> n \<and> n \<le> 90 then Some (n - 65)
      else if 97 \<le> n \<and> n \<le> 122 then Some (n - 71)
      else if 48 \<le> n \<and> n \<le> 57 then Some (n + 4)
      else if n = 43 then Some 62
      else if n = 47 then Some 63
      else None)"

fun DecodeString :: "string \<Rightarrow> string option" where
  "DecodeString [] = Some []"
| "DecodeString (c0 # c1 # c2 # c3 # s) =
     (if s = [] \<and> c3 = CHR ''='' then
        (if c2 = CHR ''='' then
           (case (dec6 c0, dec6 c1) of
              (Some d0, Some d1) \<Rightarrow> Some [char_of ((d0 * 64 + d1) div 16)]
            | _ \<Rightarrow> None)
         else
           (case (dec6 c0, dec6 c1, dec6 c2) of
              (Some d0, Some d1, Some d2) \<Rightarrow>
                (let val = (d0 * 64 + d1) * 64 + d2
                 in Some [char_of (val div 1024), char_of (val div 4)])
            | _ \<Rightarrow> None))
      else
        (case (dec6 c0, dec6 c1, dec6 c2, dec6 c3) of
           (Some d0, Some d1, Some d2, Some d3) \<Rightarrow>
             (let val = ((d0 * 64 + d1) * 64 + d2) * 64 + d3
              in case DecodeString s of
                   None \<Rightarrow> None
                 | Some bytes \<Rightarrow>
                     Some (char_of (val div 65536) # char_of (val div 256) # char_of val # bytes))
         | _ \<Rightarrow> None))"
| "DecodeString _ = None"


section \<open>The direct-provider backend: model names and the content block codec\<close>

text \<open>\<open>modelMap\<close>: Bedrock inference profile ids to Anthropic API model names.\<close>

definition modelMap :: "string \<rightharpoonup> string" where
  "modelMap = map_of
     [(ModelHaiku45, ''claude-haiku-4-5-20251001''),
      (ModelSonnet45, ''claude-sonnet-4-5-20250929''),
      (ModelSonnet46, ''claude-sonnet-4-6''),
      (ModelSonnet4, ''claude-sonnet-4-20250514'')]"

definition MapModel :: "string \<Rightarrow> string" where
  "MapModel bedrockID =
     (case modelMap bedrockID of
        Some name \<Rightarrow> name
      | None \<Rightarrow>
          if HasPrefix bedrockID ''us.anthropic.''
          then TrimPrefix bedrockID ''us.anthropic.''
          else bedrockID)"

definition docMediaTypes :: "string \<rightharpoonup> string" where
  "docMediaTypes = map_of
     [(''pdf'', ''application/pdf''),
      (''csv'', ''text/csv''),
      (''txt'', ''text/plain''),
      (''md'', ''text/markdown''),
      (''html'', ''text/html'')]"

definition docMediaType :: "string \<Rightarrow> string" where
  "docMediaType ext =
     (case docMediaTypes ext of Some mt \<Rightarrow> mt | None \<Rightarrow> ''application/octet-stream'')"

text \<open>
  The codec builds values of \<open>map[string]interface{}\<close>: strings, lists and maps with
  string keys. A map is written as the list of its entries, in the order of the source's
  literal. It is a plain value: the function has no error result.
\<close>

datatype json = JString string | JArray "json list" | JObject "(string \<times> json) list"

text \<open>\<open>os.ReadFile\<close> is the file system the process runs on: \<open>None\<close> is any read
  error (not found, permission, a directory), \<open>Some data\<close> the bytes read.\<close>

type_synonym filesystem = "string \<Rightarrow> string option"

definition convertEFSDocument :: "filesystem \<Rightarrow> ContentBlock \<Rightarrow> json" where
  "convertEFSDocument ReadFile block =
     (if cb_Path block = [] then
        JObject [(''type'', JString ''text''),
                 (''text'', JString ''[File not available locally: empty path]'')]
      else
        case ReadFile (cb_Path block) of
          None \<Rightarrow>
            JObject [(''type'', JString ''text''),
                     (''text'', JString (''[File not available locally: '' @ cb_Path block @ '']''))]
        | Some data \<Rightarrow>
            (let ext = TrimPrefix (Ext (cb_Path block)) ''.''
             in JObject [(''type'', JString ''document''),
                         (''source'', JObject [(''type'', JString ''base64''),
                                               (''media_type'', JString (docMediaType ext)),
                                               (''data'', JString (EncodeToString data))])]))"

definition convertContentBlock :: "filesystem \<Rightarrow> ContentBlock \<Rightarrow> json" where
  "convertContentBlock ReadFile block =
     (if cb_Type block = ''text'' then
        JObject [(''type'', JString ''text''), (''text'', JString (cb_Text block))]
      else if cb_Type block = ''image'' then
        (let mediaType =
               (if cb_MediaType block = [] \<and> cb_Format block \<noteq> []
                then ''image/'' @ cb_Format block else cb_MediaType block)
         in JObject [(''type'', JString ''image''),
                     (''source'', JObject [(''type'', JString ''base64''),
                                           (''media_type'', JString mediaType),
                                           (''data'', JString (cb_Data block))])])
      else if cb_Type block = ''document'' then
        (let mediaType =
               (if cb_MediaType block = [] then docMediaType (cb_Format block)
                else cb_MediaType block)
         in JObject [(''type'', JString ''document''),
                     (''source'', JObject [(''type'', JString ''base64''),
                                           (''media_type'', JString mediaType),
                                           (''data'', JString (cb_Data block))])])
      else if cb_Type block = ''efs_document'' then convertEFSDocument ReadFile block
      else
        JObject [(''type'', JString ''text''),
                 (''text'', JString (''[Unsupported content block: '' @ cb_Type block @ '']''))])"

definition convertMessages :: "filesystem \<Rightarrow> Message list \<Rightarrow> json list" where
  "convertMessages ReadFile messages =
     map (\<lambda>msg. JObject [(''role'', JString (msg_Role msg)),
                          (''content'', JArray (map (convertContentBlock ReadFile) (msg_Content msg)))])
         messages"


section \<open>Errors and the outside world\<close>

text \<open>
  A Go \<open>error\<close> value of the package is either a plain error made by \<open>fmt.Errorf\<close>
  (kept as its message; \<open>%w\<close> and \<open>%s\<close> both splice the message of the wrapped error in)
  or a \<open>*GovernorError\<close>. \<open>Panic\<close> is a run-time panic of the Go program.
\<close>

datatype error = PlainError string | GovernorErr GovernorError | Panic string

definition IsGovernorError :: "error \<Rightarrow> GovernorError option" where
  "IsGovernorError err = (case err of GovernorErr ge \<Rightarrow> Some ge | _ \<Rightarrow> None)"

text \<open>
  What the package reaches outside itself, as parameters of the model: the file system,
  the process environment (\<open>os.Getenv\<close>, the empty string for an unset variable), the AWS
  Lambda client, the HTTP client, and \<open>encoding/json\<close> at the types the package uses it
  at. A failing collaborator gives the message of its error (\<open>Inl\<close>).

  A Lambda client is a handle; \<open>LoadDefaultConfig\<close> is \<open>config.LoadDefaultConfig\<close>
  followed by \<open>lambda.NewFromConfig\<close>. \<open>LambdaInvoke\<close> takes the client, the function
  name and the payload.
\<close>

type_synonym lambdaClient = nat

record InvokeOutput =
  out_FunctionError :: "string option"
  out_Payload :: string

record httpRequest =
  hr_Method :: string
  hr_URL :: string
  hr_Header :: "(string \<times> string) list"
  hr_Body :: string

text \<open>\<open>DoFailed\<close>: \<open>httpClient.Do\<close> returned an error. \<open>ReadFailed\<close>: reading the body
  did. \<open>Responded status body\<close>: the status code and the body read.\<close>

datatype httpOutcome = DoFailed string | ReadFailed string | Responded int string

text \<open>The request and reply structs of the Anthropic Messages API. The nested struct
  \<open>Error\<close> of \<open>anthropicErrorResponse\<close> is flattened into its two fields.\<close>

record anthropicRequest =
  areq_Model :: string
  areq_MaxTokens :: "32 word"
  areq_System :: string
  areq_Temperature :: float32
  areq_Messages :: "json list"

record anthropicContentBlock =
  acb_Type :: string
  acb_Text :: string

record anthropicUsage =
  au_InputTokens :: "64 word"
  au_OutputTokens :: "64 word"

record anthropicResponse =
  aresp_Content :: "anthropicContentBlock list"
  aresp_Model :: string
  aresp_StopReason :: string
  aresp_Usage :: anthropicUsage

record anthropicErrorResponse =
  aerr_Type :: string
  aerr_Message :: string

record world =
  ReadFile :: filesystem
  Getenv :: "string \<Rightarrow> string"
  LoadDefaultConfig :: "string + lambdaClient"
  LambdaInvoke :: "lambdaClient \<Rightarrow> string \<Rightarrow> string \<Rightarrow> string + InvokeOutput"
  HttpDo :: "httpRequest \<Rightarrow> httpOutcome"
  Marshal_InvokeRequest :: "InvokeRequest \<Rightarrow> string + string"
  Marshal_anthropicRequest :: "anthropicRequest \<Rightarrow> string + string"
  Unmarshal_ErrorResponse :: "string \<Rightarrow> ErrorResponse option"
  Unmarshal_InvokeResponse :: "string \<Rightarrow> string + InvokeResponse"
  Unmarshal_anthropicResponse :: "string \<Rightarrow> string + anthropicResponse"
  Unmarshal_anthropicErrorResponse :: "string \<Rightarrow> anthropicErrorResponse option"

text \<open>What a call sends out: the Lambda invocations (function name, payload) and the HTTP
  requests, in order. An empty list: nothing was sent.\<close>

datatype effect = LambdaSent string string | HttpSent httpRequest

text \<open>A backend's \<open>Invoke\<close> returns \<open>(*InvokeResponse, error)\<close>: \<open>Inl err\<close> is a non-nil
  error, \<open>Inr (Some resp)\<close> a response with a nil error, \<open>Inr None\<close> a nil response with
  a nil error.\<close>

type_synonym invokeResult = "error + InvokeResponse option"


section \<open>The direct-provider backend (AnthropicBackend)\<close>

text \<open>The HTTP client of the backend is the \<open>HttpDo\<close> of the world.\<close>

record AnthropicBackend =
  ab_apiKey :: string

definition NewAnthropicBackend :: "world \<Rightarrow> AnthropicBackend" where
  "NewAnthropicBackend w = \<lparr>ab_apiKey = Getenv w ''ANTHROPIC_API_KEY''\<rparr>"

text \<open>The first statements of \<open>Invoke\<close>: the provider request \<open>apiReq\<close>.\<close>

definition Invoke_apiReq :: "world \<Rightarrow> InvokeRequest \<Rightarrow> anthropicRequest" where
  "Invoke_apiReq w req =
     (let model = MapModel (req_Model req);
          maxTokens = (if req_MaxTokens req = 0 then 1024 else req_MaxTokens req)
      in \<lparr>areq_Model = model,
          areq_MaxTokens = maxTokens,
          areq_System = req_System req,
          areq_Temperature = req_Temperature req,
          areq_Messages = convertMessages (ReadFile w) (req_Messages req)\<rparr>)"

text \<open>The last statements of \<open>Invoke\<close>: the response built from a decoded reply. The
  loop appends the text blocks in order; the literal leaves \<open>EstimatedCostUsd\<close> and
  \<open>BudgetRemaining\<close> at their zero values.\<close>

fun Invoke_content :: "anthropicContentBlock list \<Rightarrow> ResponseContent list \<Rightarrow> ResponseContent list" where
  "Invoke_content [] content = content"
| "Invoke_content (block # blocks) content =
     Invoke_content blocks
       (if acb_Type block = ''text''
        then content @ [\<lparr>rc_Type = ''text'', rc_Text = acb_Text block\<rparr>]
        else content)"

definition Invoke_response :: "anthropicResponse \<Rightarrow> InvokeResponse" where
  "Invoke_response apiResp =
     \<lparr>resp_Content = Invoke_content (aresp_Content apiResp) [],
      resp_Model = aresp_Model apiResp,
      resp_Usage = \<lparr>usage_InputTokens = au_InputTokens (aresp_Usage apiResp),
                    usage_OutputTokens = au_OutputTokens (aresp_Usage apiResp),
                    usage_EstimatedCostUsd = 0\<rparr>,
      resp_BudgetRemaining = zeroBudgetInfo,
      resp_StopReason = aresp_StopReason apiResp\<rparr>"

text \<open>\<open>http.NewRequestWithContext\<close> with the literal method and URL fails for a nil
  context only; contexts are not modelled and that branch is left out. \<open>Header.Set\<close>
  stores a key in its canonical form: \<open>x-api-key\<close> as \<open>X-Api-Key\<close>,
  \<open>anthropic-version\<close> as \<open>Anthropic-Version\<close>. \<open>StatusOK\<close> is 200.\<close>

definition Invoke_httpReq :: "AnthropicBackend \<Rightarrow> string \<Rightarrow> httpRequest" where
  "Invoke_httpReq b body =
     \<lparr>hr_Method = ''POST'',
      hr_URL = ''https://api.anthropic.com/v1/messages'',
      hr_Header = [(''Content-Type'', ''application/json''),
                   (''X-Api-Key'', ab_apiKey b),
                   (''Anthropic-Version'', ''2023-06-01'')],
      hr_Body = body\<rparr>"

text \<open>\<open>%d\<close> of a status code.\<close>

fun digits :: "nat \<Rightarrow> nat \<Rightarrow> string" where
  "digits 0 n = []"
| "digits (Suc fuel) n =
     (if n < 10 then [char_of (48 + n)] else digits fuel (n div 10) @ [char_of (48 + n mod 10)])"

definition show_int :: "int \<Rightarrow> string" where
  "show_int i = (if i < 0 then CHR ''-'' # digits (Suc (nat (- i))) (nat (- i))
                 else digits (Suc (nat i)) (nat i))"

definition AnthropicBackend_Invoke ::
  "world \<Rightarrow> AnthropicBackend \<Rightarrow> InvokeRequest \<Rightarrow> invokeResult \<times> effect list" where
  "AnthropicBackend_Invoke w b req =
     (case Marshal_anthropicRequest w (Invoke_apiReq w req) of
        Inl err \<Rightarrow> (Inl (PlainError (''failed to marshal Anthropic request: '' @ err)), [])
      | Inr body \<Rightarrow>
          (let httpReq = Invoke_httpReq b body in
           case HttpDo w httpReq of
             DoFailed err \<Rightarrow>
               (Inl (PlainError (''Anthropic API request failed: '' @ err)), [HttpSent httpReq])
           | ReadFailed err \<Rightarrow>
               (Inl (PlainError (''failed to read response body: '' @ err)), [HttpSent httpReq])
           | Responded status respBody \<Rightarrow>
               (if status \<noteq> 200 then
                  (case Unmarshal_anthropicErrorResponse w respBody of
                     Some errResp \<Rightarrow>
                       if aerr_Message errResp \<noteq> [] then
                         (Inl (PlainError (''Anthropic API error ('' @ aerr_Type errResp @ ''): ''
                                            @ aerr_Message errResp)), [HttpSent httpReq])
                       else
                         (Inl (PlainError (''Anthropic API returned status '' @ show_int status
                                            @ '': '' @ respBody)), [HttpSent httpReq])
                   | None \<Rightarrow>
                       (Inl (PlainError (''Anthropic API returned status '' @ show_int status
                                          @ '': '' @ respBody)), [HttpSent httpReq]))
                else
                  (case Unmarshal_anthropicResponse w respBody of
                     Inl err \<Rightarrow>
                       (Inl (PlainError (''failed to unmarshal Anthropic response: '' @ err)),
                        [HttpSent httpReq])
                   | Inr apiResp \<Rightarrow> (Inr (Some (Invoke_response apiResp)), [HttpSent httpReq])))))"


section \<open>The remote-service backend (LambdaBackend)\<close>

record LambdaBackend =
  lb_functionName :: string
  lb_lambdaClient :: "lambdaClient option"

definition NewLambdaBackend :: "string \<Rightarrow> lambdaClient option \<Rightarrow> LambdaBackend" where
  "NewLambdaBackend functionName lambdaClient =
     \<lparr>lb_functionName = functionName, lb_lambdaClient = lambdaClient\<rparr>"

text \<open>\<open>ensureClient\<close>: the client to use, which the caller stores in the backend.\<close>

definition ensureClient :: "world \<Rightarrow> lambdaClient option \<Rightarrow> error + lambdaClient" where
  "ensureClient w lambdaClient =
     (case lambdaClient of
        Some client \<Rightarrow> Inr client
      | None \<Rightarrow>
          (case LoadDefaultConfig w of
             Inl err \<Rightarrow> Inl (PlainError (''failed to load AWS config: '' @ err))
           | Inr client \<Rightarrow> Inr client))"

text \<open>
  The end of \<open>call\<close>, from the comment "Try to detect a governor error response" on: the
  payload is decoded as an \<open>ErrorResponse\<close> first, then as the result type.
\<close>

definition call_decode ::
  "world \<Rightarrow> (string \<Rightarrow> string + 'r) \<Rightarrow> string \<Rightarrow> error + 'r" where
  "call_decode w unmarshal payload =
     (let governorError =
            (case Unmarshal_ErrorResponse w payload of
               Some errResp \<Rightarrow>
                 if er_Error errResp \<noteq> [] then
                   Some \<lparr>ge_Code = er_Error errResp,
                         ge_Msg = er_Message errResp,
                         ge_AllowedModels = er_AllowedModels errResp,
                         ge_BudgetRemaining = er_BudgetRemaining errResp,
                         ge_RetryAfterSec = er_RetryAfterSec errResp\<rparr>
                 else None
             | None \<Rightarrow> None)
      in case governorError of
           Some ge \<Rightarrow> Inl (GovernorErr ge)
         | None \<Rightarrow>
             (case unmarshal payload of
                Inl err \<Rightarrow> Inl (PlainError (''failed to unmarshal response: '' @ err))
              | Inr result \<Rightarrow> Inr result))"

text \<open>
  \<open>call\<close> is generic in the payload and the result (\<open>interface{}\<close>): it is given
  \<open>json.Marshal(payload)\<close> and the \<open>json.Unmarshal\<close> of the result type.
\<close>

definition LambdaBackend_call ::
  "world \<Rightarrow> LambdaBackend \<Rightarrow> string + string \<Rightarrow> (string \<Rightarrow> string + 'r)
     \<Rightarrow> (error + 'r) \<times> LambdaBackend \<times> effect list" where
  "LambdaBackend_call w b marshalled unmarshal =
     (case ensureClient w (lb_lambdaClient b) of
        Inl err \<Rightarrow> (Inl err, b, [])
      | Inr client \<Rightarrow>
          (let b' = b\<lparr>lb_lambdaClient := Some client\<rparr> in
           case marshalled of
             Inl err \<Rightarrow> (Inl (PlainError (''failed to marshal request: '' @ err)), b', [])
           | Inr payloadBytes \<Rightarrow>
               (let sent = [LambdaSent (lb_functionName b) payloadBytes] in
                case LambdaInvoke w client (lb_functionName b) payloadBytes of
                  Inl err \<Rightarrow>
                    (Inl (PlainError (''failed to invoke governor: '' @ err)), b', sent)
                | Inr output \<Rightarrow>
                    (case out_FunctionError output of
                       Some functionError \<Rightarrow>
                         (Inl (PlainError (''governor function error: '' @ functionError)),
                          b', sent)
                     | None \<Rightarrow> (call_decode w unmarshal (out_Payload output), b', sent)))))"

definition LambdaBackend_Invoke ::
  "world \<Rightarrow> LambdaBackend \<Rightarrow> InvokeRequest \<Rightarrow> invokeResult \<times> LambdaBackend \<times> effect list" where
  "LambdaBackend_Invoke w b req =
     (case LambdaBackend_call w b (Marshal_InvokeRequest w req) (Unmarshal_InvokeResponse w) of
        (Inl err, b', sent) \<Rightarrow> (Inl err, b', sent)
      | (Inr resp, b', sent) \<Rightarrow> (Inr (Some resp), b', sent))"


section \<open>The mock backend (backend\_mock.go)\<close>

text \<open>
  \<open>responses\<close> is a slice of pointers, \<open>None\<close> being a nil pointer that a test registered.
  A request is a value: the nil request pointer, on which the default echo panics, is not
  an \<open>InvokeRequest\<close>. The mutex is not modelled: the calls are taken one after the other.
\<close>

record MockBackend =
  mock_responses :: "InvokeResponse option list"
  mock_callLog :: "InvokeRequest list"

definition NewMockBackend :: MockBackend where
  "NewMockBackend = \<lparr>mock_responses = [], mock_callLog = []\<rparr>"

definition SetResponse :: "MockBackend \<Rightarrow> InvokeResponse option \<Rightarrow> MockBackend" where
  "SetResponse b resp = b\<lparr>mock_responses := [resp]\<rparr>"

definition SetResponses :: "MockBackend \<Rightarrow> InvokeResponse option list \<Rightarrow> MockBackend" where
  "SetResponses b responses = b\<lparr>mock_responses := responses\<rparr>"

definition Calls :: "MockBackend \<Rightarrow> InvokeRequest list" where
  "Calls b = mock_callLog b"

text \<open>The two loops of the default echo. The inner one runs over the blocks of a message
  and stops at the first non-empty text block; the outer one runs from the last message
  down and stops at the first message of role user, whatever the inner loop found.
  \<open>promptText_from messages n\<close> is the outer loop about to read index \<open>n - 1\<close>.\<close>

fun promptText_blocks :: "ContentBlock list \<Rightarrow> string" where
  "promptText_blocks [] = []"
| "promptText_blocks (block # blocks) =
     (if cb_Type block = ''text'' \<and> cb_Text block \<noteq> [] then cb_Text block
      else promptText_blocks blocks)"

fun promptText_from :: "Message list \<Rightarrow> nat \<Rightarrow> string" where
  "promptText_from messages 0 = []"
| "promptText_from messages (Suc i) =
     (if msg_Role (messages ! i) = ''user'' then promptText_blocks (msg_Content (messages ! i))
      else promptText_from messages i)"

definition MockBackend_Invoke ::
  "MockBackend \<Rightarrow> InvokeRequest \<Rightarrow> invokeResult \<times> MockBackend" where
  "MockBackend_Invoke b0 req =
     (let b = b0\<lparr>mock_callLog := mock_callLog b0 @ [req]\<rparr> in
      if length (mock_responses b) > 0 then
        (if length (mock_responses b) > 1 then
           (Inr (mock_responses b ! 0), b\<lparr>mock_responses := drop 1 (mock_responses b)\<rparr>)
         else (Inr (mock_responses b ! 0), b))
      else
        (let promptText = promptText_from (req_Messages req) (length (req_Messages req))
         in (Inr (Some \<lparr>resp_Content = [\<lparr>rc_Type = ''text'', rc_Text = ''[mock] '' @ promptText\<rparr>],
                         resp_Model = req_Model req,
                         resp_Usage = zeroUsageInfo,
                         resp_BudgetRemaining = zeroBudgetInfo,
                         resp_StopReason = ''end_turn''\<rparr>), b)))"

text \<open>A run of calls on one mock: the results in order and the mock left behind.\<close>

fun MockBackend_Invokes ::
  "MockBackend \<Rightarrow> InvokeRequest list \<Rightarrow> invokeResult list \<times> MockBackend" where
  "MockBackend_Invokes b [] = ([], b)"
| "MockBackend_Invokes b (req # reqs) =
     (case MockBackend_Invoke b req of
        (r, b') \<Rightarrow> (case MockBackend_Invokes b' reqs of (rs, b'') \<Rightarrow> (r # rs, b'')))"

text \<open>\<open>(*InvokeResponse).Text\<close>: the text blocks of a response, concatenated.\<close>

fun Text_from :: "ResponseContent list \<Rightarrow> string \<Rightarrow> string" where
  "Text_from [] text = text"
| "Text_from (c # cs) text = Text_from cs (if rc_Type c = ''text'' then text @ rc_Text c else text)"

definition Text :: "InvokeResponse \<Rightarrow> string" where
  "Text r = Text_from (resp_Content r) []"


section \<open>The facade (governor.go, with backends)\<close>

text \<open>The \<open>Backend\<close> interface, as the sum of its three implementations in the package.\<close>

datatype Backend = BLambda LambdaBackend | BAnthropic AnthropicBackend | BMock MockBackend

fun Backend_Invoke ::
  "world \<Rightarrow> Backend \<Rightarrow> InvokeRequest \<Rightarrow> invokeResult \<times> Backend \<times> effect list" where
  "Backend_Invoke w (BLambda b) req =
     (case LambdaBackend_Invoke w b req of (r, b', sent) \<Rightarrow> (r, BLambda b', sent))"
| "Backend_Invoke w (BAnthropic b) req =
     (case AnthropicBackend_Invoke w b req of (r, sent) \<Rightarrow> (r, BAnthropic b, sent))"
| "Backend_Invoke w (BMock b) req =
     (case MockBackend_Invoke b req of (r, b') \<Rightarrow> (r, BMock b', []))"

text \<open>\<open>backend\<close> is an interface value: \<open>None\<close> is nil.\<close>

record Governor =
  gov_functionName :: string
  gov_executionRunID :: string
  gov_lambdaClient :: "lambdaClient option"
  gov_backend :: "Backend option"

datatype GovernorOption =
    WithFunctionName string
  | WithExecutionRunID string
  | WithLambdaClient "lambdaClient option"
  | WithBackend "Backend option"

fun applyOption :: "GovernorOption \<Rightarrow> Governor \<Rightarrow> Governor" where
  "applyOption (WithFunctionName name) g = g\<lparr>gov_functionName := name\<rparr>"
| "applyOption (WithExecutionRunID runID) g = g\<lparr>gov_executionRunID := runID\<rparr>"
| "applyOption (WithLambdaClient client) g = g\<lparr>gov_lambdaClient := client\<rparr>"
| "applyOption (WithBackend b) g = g\<lparr>gov_backend := b\<rparr>"

definition NewGovernor :: "world \<Rightarrow> GovernorOption list \<Rightarrow> Governor" where
  "NewGovernor w opts =
     (let g = fold applyOption opts
                \<lparr>gov_functionName = Getenv w ''LLM_GOVERNOR_FUNCTION'',
                 gov_executionRunID = Getenv w ''EXECUTION_RUN_ID'',
                 gov_lambdaClient = None,
                 gov_backend = None\<rparr>
      in if gov_backend g = None then
           (if gov_functionName g \<noteq> [] then
              g\<lparr>gov_backend := Some (BLambda (NewLambdaBackend (gov_functionName g) (gov_lambdaClient g)))\<rparr>
            else if Getenv w ''ANTHROPIC_API_KEY'' \<noteq> [] then
              g\<lparr>gov_backend := Some (BAnthropic (NewAnthropicBackend w))\<rparr>
            else g\<lparr>gov_backend := Some (BMock NewMockBackend)\<rparr>)
         else g)"

text \<open>\<open>Available\<close>: the type assertion \<open>g.backend.(*MockBackend)\<close> with the comma-ok
  form, which is false on a nil interface.\<close>

definition Available :: "Governor \<Rightarrow> bool" where
  "Available g =
     (let isMock = (case gov_backend g of Some (BMock b) \<Rightarrow> True | _ \<Rightarrow> False)
      in \<not> isMock)"

text \<open>\<open>Invoke\<close> writes the defaults into the request it was given (a pointer) and hands
  that request to the backend. A method call on a nil interface panics.\<close>

definition Invoke_defaults :: "Governor \<Rightarrow> InvokeRequest \<Rightarrow> InvokeRequest" where
  "Invoke_defaults g req =
     (let req1 = (if req_Action req = [] then req\<lparr>req_Action := ''invoke''\<rparr> else req);
          req2 = (if req_ExecutionRunID req1 = []
                  then req1\<lparr>req_ExecutionRunID := gov_executionRunID g\<rparr> else req1)
      in req2)"

definition Governor_Invoke ::
  "world \<Rightarrow> Governor \<Rightarrow> InvokeRequest \<Rightarrow> invokeResult \<times> Governor \<times> effect list" where
  "Governor_Invoke w g req =
     (let req' = Invoke_defaults g req in
      case gov_backend g of
        None \<Rightarrow> (Inl (Panic ''runtime error: invalid memory address or nil pointer dereference''), g, [])
      | Some backend \<Rightarrow>
          (case Backend_Invoke w backend req' of
             (r, backend', sent) \<Rightarrow> (r, g\<lparr>gov_backend := Some backend'\<rparr>, sent)))"


section \<open>The Lambda-only Governor (src/llm/governor.go)\<close>

text \<open>
  The file src/llm/governor.go holds a \<open>Governor\<close> without backends: it always calls the
  governor Lambda. Its names carry the prefix \<open>Lambda_\<close> here.
\<close>

record LambdaGovernor =
  lg_functionName :: string
  lg_executionRunID :: string
  lg_lambdaClient :: "lambdaClient option"

definition Lambda_Available :: "LambdaGovernor \<Rightarrow> bool" where
  "Lambda_Available g = (lg_functionName g \<noteq> [])"

definition Lambda_invoke ::
  "world \<Rightarrow> LambdaGovernor \<Rightarrow> string + string \<Rightarrow> (string \<Rightarrow> string + 'r)
     \<Rightarrow> (error + 'r) \<times> LambdaGovernor \<times> effect list" where
  "Lambda_invoke w g marshalled unmarshal =
     (if \<not> Lambda_Available g then
        (Inl (PlainError ''LLM governor not available: LLM_GOVERNOR_FUNCTION is not set''), g, [])
      else
        case ensureClient w (lg_lambdaClient g) of
          Inl err \<Rightarrow> (Inl err, g, [])
        | Inr client \<Rightarrow>
            (let g' = g\<lparr>lg_lambdaClient := Some client\<rparr> in
             case marshalled of
               Inl err \<Rightarrow> (Inl (PlainError (''failed to marshal request: '' @ err)), g', [])
             | Inr payloadBytes \<Rightarrow>
                 (let sent = [LambdaSent (lg_functionName g) payloadBytes] in
                  case LambdaInvoke w client (lg_functionName g) payloadBytes of
                    Inl err \<Rightarrow>
                      (Inl (PlainError (''failed to invoke governor: '' @ err)), g', sent)
                  | Inr output \<Rightarrow>
                      (case out_FunctionError output of
                         Some functionError \<Rightarrow>
                           (Inl (PlainError (''governor function error: '' @ functionError)),
                            g', sent)
                       | None \<Rightarrow> (call_decode w unmarshal (out_Payload output), g', sent)))))"

definition Lambda_Invoke ::
  "world \<Rightarrow> LambdaGovernor \<Rightarrow> InvokeRequest \<Rightarrow> invokeResult \<times> LambdaGovernor \<times> effect list" where
  "Lambda_Invoke w g req =
     (let req1 = (if req_Action req = [] then req\<lparr>req_Action := ''invoke''\<rparr> else req);
          req2 = (if req_ExecutionRunID req1 = []
                  then req1\<lparr>req_ExecutionRunID := lg_executionRunID g\<rparr> else req1)
      in if req_ExecutionRunID req2 = [] then
           (Inl (PlainError ''executionRunId is required: set EXECUTION_RUN_ID env var or use WithExecutionRunID option''),
            g, [])
         else
           case Lambda_invoke w g (Marshal_InvokeRequest w req2) (Unmarshal_InvokeResponse w) of
             (Inl err, g', sent) \<Rightarrow> (Inl err, g', sent)
           | (Inr resp, g', sent) \<Rightarrow> (Inr (Some resp), g', sent))"


section \<open>Reading the claims, and a small world for concrete runs\<close>

text \<open>
  "The text of the first non-empty text block of the most recent message with role user",
  word for word: the most recent user message is the first one of the reversed list; the
  prompt is empty when either search finds nothing. To be compared with
  \<^const>\<open>promptText_from\<close>, the loops of the source.
\<close>

definition mostRecentUserMessage :: "Message list \<Rightarrow> Message option" where
  "mostRecentUserMessage messages = find (\<lambda>m. msg_Role m = ''user'') (rev messages)"

definition firstNonEmptyText :: "Message \<Rightarrow> string" where
  "firstNonEmptyText m =
     (case find (\<lambda>block. cb_Type block = ''text'' \<and> cb_Text block \<noteq> []) (msg_Content m) of
        None \<Rightarrow> []
      | Some block \<Rightarrow> cb_Text block)"

definition promptOf :: "InvokeRequest \<Rightarrow> string" where
  "promptOf req =
     (case mostRecentUserMessage (req_Messages req) of
        None \<Rightarrow> []
      | Some m \<Rightarrow> firstNonEmptyText m)"

text \<open>
  The configuration that the options of \<open>NewGovernor\<close> amount to: an option given later
  overrides an earlier one of its kind, and the environment stands in for a function name
  that no option gives. \<open>None\<close> for the backend: no backend given, or nil.
\<close>

fun backendOptions :: "GovernorOption list \<Rightarrow> Backend option list" where
  "backendOptions [] = []"
| "backendOptions (WithBackend b # opts) = b # backendOptions opts"
| "backendOptions (opt # opts) = backendOptions opts"

fun functionNameOptions :: "GovernorOption list \<Rightarrow> string list" where
  "functionNameOptions [] = []"
| "functionNameOptions (WithFunctionName name # opts) = name # functionNameOptions opts"
| "functionNameOptions (opt # opts) = functionNameOptions opts"

fun lambdaClientOptions :: "GovernorOption list \<Rightarrow> lambdaClient option list" where
  "lambdaClientOptions [] = []"
| "lambdaClientOptions (WithLambdaClient client # opts) = client # lambdaClientOptions opts"
| "lambdaClientOptions (opt # opts) = lambdaClientOptions opts"

definition explicitBackend :: "GovernorOption list \<Rightarrow> Backend option" where
  "explicitBackend opts =
     (if backendOptions opts = [] then None else last (backendOptions opts))"

definition configuredFunctionName :: "world \<Rightarrow> GovernorOption list \<Rightarrow> string" where
  "configuredFunctionName w opts =
     (if functionNameOptions opts = [] then Getenv w ''LLM_GOVERNOR_FUNCTION''
      else last (functionNameOptions opts))"

definition configuredLambdaClient :: "GovernorOption list \<Rightarrow> lambdaClient option" where
  "configuredLambdaClient opts =
     (if lambdaClientOptions opts = [] then None else last (lambdaClientOptions opts))"

definition isMock :: "Backend \<Rightarrow> bool" where
  "isMock backend = (case backend of BMock b \<Rightarrow> True | _ \<Rightarrow> False)"

text \<open>
  A world to run the functions in. JSON texts are abbreviated (no quotes). The function
  named \<open>broken\<close> reports a function error, \<open>over-budget\<close> answers with an error
  envelope, \<open>garbled\<close> with something that is not JSON, and every other function with a
  success envelope; a success envelope also decodes as an \<open>ErrorResponse\<close>, with an empty
  \<open>error\<close> field. The HTTP server always answers 200 with one fixed reply.
\<close>

definition exampleErrorResponse :: ErrorResponse where
  "exampleErrorResponse =
     \<lparr>er_Error = ''budget_exceeded'', er_Message = ''daily budget exceeded'',
      er_AllowedModels = [''m1''], er_BudgetRemaining = Some zeroBudgetInfo,
      er_MaxSizeBytes = 0, er_RetryAfterSec = 30, er_Model = []\<rparr>"

definition zeroErrorResponse :: ErrorResponse where
  "zeroErrorResponse =
     \<lparr>er_Error = [], er_Message = [], er_AllowedModels = [], er_BudgetRemaining = None,
      er_MaxSizeBytes = 0, er_RetryAfterSec = 0, er_Model = []\<rparr>"

definition exampleResponse :: "string \<Rightarrow> InvokeResponse" where
  "exampleResponse text =
     zeroInvokeResponse\<lparr>resp_Content := [\<lparr>rc_Type = ''text'', rc_Text = text\<rparr>]\<rparr>"

definition exampleAnthropicResponse :: anthropicResponse where
  "exampleAnthropicResponse =
     \<lparr>aresp_Content = [\<lparr>acb_Type = ''text'', acb_Text = ''Hello ''\<rparr>,
                       \<lparr>acb_Type = ''tool_use'', acb_Text = []\<rparr>,
                       \<lparr>acb_Type = ''text'', acb_Text = ''world''\<rparr>],
      aresp_Model = ''claude-haiku-4-5-20251001'',
      aresp_StopReason = ''end_turn'',
      aresp_Usage = \<lparr>au_InputTokens = 12, au_OutputTokens = 5\<rparr>\<rparr>"

definition exampleReply :: string where
  "exampleReply = ''{content:[{type:text,text:ok}]}''"

definition exampleErrorReply :: string where
  "exampleErrorReply = ''{error:budget_exceeded,message:daily budget exceeded}''"

definition exampleAnthropicReply :: string where
  "exampleAnthropicReply = ''{content:[{type:text},{type:tool_use},{type:text}]}''"

text \<open>The abbreviated JSON text of a value of the codec.\<close>

fun commas :: "string list \<Rightarrow> string" where
  "commas [] = []"
| "commas [x] = x"
| "commas (x # y # ys) = x @ '','' @ commas (y # ys)"

primrec render :: "json \<Rightarrow> string" where
  "render (JString str) = str"
| "render (JArray values) = ''['' @ commas (map render values) @ '']''"
| "render (JObject entries) =
     ''{'' @ commas (map (\<lambda>(k, v). k @ '':'' @ v) (map (map_prod id render) entries)) @ ''}''"

definition exampleWorld :: world where
  "exampleWorld =
     \<lparr>ReadFile = (\<lambda>path. if path = ''/tmp/test.pdf'' then Some ''fake pdf content'' else None),
      Getenv = (\<lambda>name. []),
      LoadDefaultConfig = Inr 0,
      LambdaInvoke = (\<lambda>client functionName payload.
         if functionName = ''broken''
         then Inr \<lparr>out_FunctionError = Some ''Unhandled'', out_Payload = []\<rparr>
         else if functionName = ''over-budget''
         then Inr \<lparr>out_FunctionError = None, out_Payload = exampleErrorReply\<rparr>
         else if functionName = ''garbled''
         then Inr \<lparr>out_FunctionError = None, out_Payload = ''<html>''\<rparr>
         else Inr \<lparr>out_FunctionError = None, out_Payload = exampleReply\<rparr>),
      HttpDo = (\<lambda>httpReq. Responded 200 exampleAnthropicReply),
      Marshal_InvokeRequest = (\<lambda>req.
         Inr (''{action:'' @ req_Action req @ '',model:'' @ req_Model req
              @ '',executionRunId:'' @ req_ExecutionRunID req @ ''}'')),
      Marshal_anthropicRequest = (\<lambda>apiReq.
         Inr (''{model:'' @ areq_Model apiReq @ '',messages:''
              @ render (JArray (areq_Messages apiReq)) @ ''}'')),
      Unmarshal_ErrorResponse = (\<lambda>payload.
         if payload = exampleErrorReply then Some exampleErrorResponse
         else if payload = ''<html>'' then None
         else Some zeroErrorResponse),
      Unmarshal_InvokeResponse = (\<lambda>payload.
         if payload = exampleReply then Inr (exampleResponse ''ok'')
         else Inl ''invalid character''),
      Unmarshal_anthropicResponse = (\<lambda>body.
         if body = exampleAnthropicReply then Inr exampleAnthropicResponse
         else Inl ''unexpected end of JSON input''),
      Unmarshal_anthropicErrorResponse = (\<lambda>body. None)\<rparr>"

definition exampleEnv :: "string \<Rightarrow> string \<Rightarrow> world" where
  "exampleEnv functionName apiKey =
     exampleWorld\<lparr>Getenv := (\<lambda>name.
        if name = ''LLM_GOVERNOR_FUNCTION'' then functionName
        else if name = ''ANTHROPIC_API_KEY'' then apiKey
        else [])\<rparr>"

text \<open>The shape of a converted document: \<open>{type: document, source: {type: base64,
  media_type, data}}\<close>, used to state what the codec returns.\<close>

definition document_block :: "string \<Rightarrow> string \<Rightarrow> json" where
  "document_block mediaType data = JObject [(''type'', JString ''document''),
                 (''source'', JObject [(''type'', JString ''base64''),
                                       (''media_type'', JString mediaType),
                                       (''data'', JString data)])]"


section \<open>Model names and the content block codec: proofs\<close>

lemma HasPrefix_append: "HasPrefix (pre @ rest) pre"
  by (simp add: HasPrefix_def)

lemma HasPrefix_iff: "HasPrefix s pre \<longleftrightarrow> (\<exists>rest. s = pre @ rest)"
proof
  assume "HasPrefix s pre"
  then have "s = pre @ drop (length pre) s"
    by (metis HasPrefix_def append_take_drop_id)
  then show "\<exists>rest. s = pre @ rest" ..
next
  assume "\<exists>rest. s = pre @ rest"
  then show "HasPrefix s pre" by (auto simp: HasPrefix_append)
qed

lemma TrimPrefix_append: "TrimPrefix (pre @ rest) pre = rest"
  by (simp add: TrimPrefix_def HasPrefix_append)

text \<open>
  Claim C5. For every model identifier: if it is a key of \<open>modelMap\<close>, \<open>MapModel\<close> returns
  the table's name for it; if it is not in the table but starts with \<open>us.anthropic.\<close>,
  \<open>MapModel\<close> returns it with exactly that prefix removed; every other identifier passes
  through unchanged.
\<close>

theorem MapModel_table_prefix_passthrough:
  "(modelMap bedrockID = Some name \<longrightarrow> MapModel bedrockID = name)
   \<and> (modelMap bedrockID = None \<and> bedrockID = ''us.anthropic.'' @ rest
        \<longrightarrow> MapModel bedrockID = rest)
   \<and> (modelMap bedrockID = None \<and> \<not> (\<exists>r. bedrockID = ''us.anthropic.'' @ r)
        \<longrightarrow> MapModel bedrockID = bedrockID)"
proof (intro conjI impI)
  assume "modelMap bedrockID = Some name"
  then show "MapModel bedrockID = name" by (simp add: MapModel_def)
next
  assume a: "modelMap bedrockID = None \<and> bedrockID = ''us.anthropic.'' @ rest"
  then have m: "modelMap bedrockID = None" and e: "bedrockID = ''us.anthropic.'' @ rest"
    by blast+
  have h: "HasPrefix bedrockID ''us.anthropic.''"
    unfolding e by (rule HasPrefix_append)
  have t: "TrimPrefix bedrockID ''us.anthropic.'' = rest"
    unfolding e by (rule TrimPrefix_append)
  show "MapModel bedrockID = rest"
    unfolding MapModel_def by (simp only: m h t option.case if_True)
next
  assume a: "modelMap bedrockID = None \<and> \<not> (\<exists>r. bedrockID = ''us.anthropic.'' @ r)"
  then have m: "modelMap bedrockID = None" by blast
  have h: "\<not> HasPrefix bedrockID ''us.anthropic.''"
    using a by (simp only: HasPrefix_iff simp_thms)
  show "MapModel bedrockID = bedrockID"
    unfolding MapModel_def by (simp only: m h option.case if_False)
qed

lemma modelMap_simps:
  "modelMap ModelHaiku45 = Some ''claude-haiku-4-5-20251001''"
  "modelMap ModelSonnet45 = Some ''claude-sonnet-4-5-20250929''"
  "modelMap ModelSonnet46 = Some ''claude-sonnet-4-6''"
  "modelMap ModelSonnet4 = Some ''claude-sonnet-4-20250514''"
  "modelMap ''us.anthropic.claude-future-model'' = None"
  "modelMap ''some-other-model'' = None"
  by (simp_all add: modelMap_def ModelHaiku45_def ModelSonnet45_def ModelSonnet46_def ModelSonnet4_def)

text \<open>
  The three cases at the identifiers of the package's tests: a known id, an unseen id with
  the vendor prefix, and an unknown id.
\<close>

theorem MapModel_table_prefix_passthrough_witness:
  "modelMap ModelHaiku45 = Some ''claude-haiku-4-5-20251001''
   \<and> MapModel ModelHaiku45 = ''claude-haiku-4-5-20251001''
   \<and> modelMap ''us.anthropic.claude-future-model'' = None
   \<and> MapModel ''us.anthropic.claude-future-model'' = ''claude-future-model''
   \<and> modelMap ''some-other-model'' = None
   \<and> \<not> (\<exists>r. ''some-other-model'' = ''us.anthropic.'' @ r)
   \<and> MapModel ''some-other-model'' = ''some-other-model''"
  using MapModel_table_prefix_passthrough [of ModelHaiku45 "''claude-haiku-4-5-20251001''"]
    MapModel_table_prefix_passthrough [of "''us.anthropic.claude-future-model''" _ "''claude-future-model''"]
    MapModel_table_prefix_passthrough [of "''some-other-model''"]
  by (simp add: modelMap_simps)

lemma Ext_from_suffix:
  assumes "\<forall>c \<in> set e. c \<noteq> CHR ''/'' \<and> c \<noteq> CHR ''.''" and "k \<le> length e"
  shows "Ext_from (p @ CHR ''.'' # e) (Suc (length p) + k) = CHR ''.'' # e"
  using assms(2)
proof (induction k)
  case 0
  then show ?case by (simp add: nth_append)
next
  case (Suc k)
  then have "k < length e" by simp
  then have "e ! k \<in> set e" by simp
  then have "e ! k \<noteq> CHR ''/''" "e ! k \<noteq> CHR ''.''" using assms(1) by auto
  moreover have "(p @ CHR ''.'' # e) ! (Suc (length p) + k) = e ! k"
    by (simp add: nth_append)
  ultimately show ?case using Suc by simp
qed

lemma Ext_suffix:
  assumes "\<forall>c \<in> set e. c \<noteq> CHR ''/'' \<and> c \<noteq> CHR ''.''"
  shows "Ext (p @ CHR ''.'' # e) = CHR ''.'' # e"
  using Ext_from_suffix [OF assms, of "length e" p] by (simp add: Ext_def)

lemma TrimPrefix_Ext_suffix:
  assumes "\<forall>c \<in> set e. c \<noteq> CHR ''/'' \<and> c \<noteq> CHR ''.''"
  shows "TrimPrefix (Ext (p @ CHR ''.'' # e)) ''.'' = e"
  using TrimPrefix_append [of "''.''" e] by (simp add: Ext_suffix [OF assms])

lemma docMediaType_table:
  "docMediaType ''pdf'' = ''application/pdf''"
  "docMediaType ''csv'' = ''text/csv''"
  "docMediaType ''txt'' = ''text/plain''"
  "docMediaType ''md'' = ''text/markdown''"
  "docMediaType ''html'' = ''text/html''"
  by (simp_all add: docMediaType_def docMediaTypes_def)

lemma docMediaType_unknown:
  "ext \<notin> {''pdf'', ''csv'', ''txt'', ''md'', ''html''} \<Longrightarrow> docMediaType ext = ''application/octet-stream''"
  by (simp add: docMediaType_def docMediaTypes_def)


lemma encodeStd_codes:
  "map of_char encodeStd = ([65..<91] @ [97..<123] @ [48..<58] @ [43, 47] :: nat list)"
  unfolding encodeStd_def by simp

lemma length_encodeStd: "length encodeStd = 64"
  unfolding encodeStd_def by simp

lemma of_char_enc6:
  assumes "i < 64"
  shows "(of_char (encodeStd ! i) :: nat) =
     (if i < 26 then i + 65 else if i < 52 then i + 71 else if i < 62 then i - 4
      else if i = 62 then 43 else 47)"
proof -
  have "(of_char (encodeStd ! i) :: nat) = map of_char encodeStd ! i"
    using assms by (simp add: length_encodeStd)
  also have "\<dots> = ([65..<91] @ [97..<123] @ [48..<58] @ [43, 47]) ! i"
    by (simp only: encodeStd_codes)
  also have "\<dots> = (if i < 26 then i + 65 else if i < 52 then i + 71 else if i < 62 then i - 4
      else if i = 62 then 43 else 47)"
    using assms by (auto simp: nth_append nth_Cons')
  finally show ?thesis .
qed

lemma dec6_enc6: "dec6 (enc6 i) = Some (i mod 64)"
proof -
  have "i mod 64 < 64" by simp
  then show ?thesis
    unfolding enc6_def dec6_def Let_def by (simp only: of_char_enc6) auto
qed

lemma enc6_not_pad: "enc6 i \<noteq> CHR ''=''"
proof
  assume "enc6 i = CHR ''=''"
  then have "(of_char (encodeStd ! (i mod 64)) :: nat) = 61" by (simp add: enc6_def)
  moreover have "i mod 64 < 64" by simp
  ultimately show False by (simp only: of_char_enc6 split: if_splits)
qed

lemma of_char_lt: "(of_char c :: nat) < 256"
proof -
  have "(of_char c :: nat) mod 256 = of_char c" by simp
  then show ?thesis by (metis mod_less_divisor zero_less_numeral)
qed

lemma digits64:
  fixes v :: nat
  assumes "v < 16777216"
  shows "((v div 262144 mod 64 * 64 + v div 4096 mod 64) * 64 + v div 64 mod 64) * 64 + v mod 64 = v"
proof -
  define q1 where "q1 = v div 64"
  define q2 where "q2 = q1 div 64"
  define q3 where "q3 = q2 div 64"
  have e2: "v div 4096 = q2" unfolding q2_def q1_def by (simp add: div_mult2_eq[symmetric])
  have e3: "v div 262144 = q3" unfolding q3_def q2_def q1_def by (simp add: div_mult2_eq[symmetric])
  have s: "q3 < 64" using assms unfolding e3[symmetric] by simp
  have a1: "v = q1 * 64 + v mod 64" unfolding q1_def by simp
  have a2: "q1 = q2 * 64 + q1 mod 64" unfolding q2_def by simp
  have a3: "q2 = q3 * 64 + q2 mod 64" unfolding q3_def by simp
  have "((q3 * 64 + q2 mod 64) * 64 + q1 mod 64) * 64 + v mod 64 = v"
    using a1 a2 a3 by simp
  then show ?thesis using s by (simp add: e2 e3 q1_def)
qed

lemma quantum3:
  fixes a b c :: nat
  assumes "a < 256" "b < 256" "c < 256"
  defines "v \<equiv> a * 65536 + b * 256 + c"
  shows "v < 16777216" and "v div 65536 mod 256 = a" and "v div 256 mod 256 = b"
    and "v mod 256 = c"
proof -
  show "v < 16777216" using assms by simp
  show "v div 65536 mod 256 = a" unfolding v_def using assms by simp
  have "v div 256 = a * 256 + b" unfolding v_def using assms(3) by simp
  then show "v div 256 mod 256 = b" using assms(2) by simp
  have "v = (a * 256 + b) * 256 + c" unfolding v_def by simp
  then have "v mod 256 = c mod 256" by (simp only: mod_mult_self3)
  then show "v mod 256 = c" using assms(3) by simp
qed

lemma quantum2:
  fixes a b :: nat
  assumes "a < 256" "b < 256"
  defines "v \<equiv> a * 65536 + b * 256"
  defines "w \<equiv> (v div 262144 mod 64 * 64 + v div 4096 mod 64) * 64 + v div 64 mod 64"
  shows "w div 1024 mod 256 = a" and "w div 4 mod 256 = b"
proof -
  have "v < 16777216" using assms by simp
  then have "w * 64 + v mod 64 = v" unfolding w_def by (rule digits64)
  moreover have "v = (a * 1024 + b * 4) * 64" unfolding v_def by simp
  ultimately have w: "w = a * 1024 + b * 4" by simp
  show "w div 1024 mod 256 = a" unfolding w using assms by simp
  have "w = (a * 256 + b) * 4" unfolding w by simp
  then have "w div 4 = a * 256 + b" by simp
  then show "w div 4 mod 256 = b" using assms(2) by simp
qed

lemma quantum1:
  fixes a :: nat
  assumes "a < 256"
  defines "v \<equiv> a * 65536"
  defines "w \<equiv> v div 262144 mod 64 * 64 + v div 4096 mod 64"
  shows "w div 16 mod 256 = a"
proof -
  have "v < 16777216" using assms by simp
  then have "(w * 64 + v div 64 mod 64) * 64 + v mod 64 = v" unfolding w_def by (rule digits64)
  moreover have "v = (a * 16) * 64 * 64" unfolding v_def by simp
  ultimately have w: "w = a * 16" by simp
  show "w div 16 mod 256 = a" unfolding w using assms by simp
qed

lemma char_of_byte: "(n::nat) mod 256 = of_char c \<Longrightarrow> char_of n = c"
  by (metis char_of_char char_of_mod_256)

lemmas decode_simps = DecodeString.simps dec6_enc6 enc6_not_pad simp_thms if_False if_True
  prod.case option.case Let_def list.simps

lemma DecodeString_EncodeToString: "DecodeString (EncodeToString src) = Some src"
proof (induction src rule: EncodeToString.induct)
  case (1 b0 b1 b2 src)
  define v where "v = (of_char b0 * 65536 + of_char b1 * 256 + of_char b2 :: nat)"
  note q = quantum3 [OF of_char_lt of_char_lt of_char_lt, of b0 b1 b2, folded v_def]
  have enc: "EncodeToString (b0 # b1 # b2 # src) =
      enc6 (v div 262144) # enc6 (v div 4096) # enc6 (v div 64) # enc6 v # EncodeToString src"
    by (simp only: EncodeToString.simps Let_def v_def)
  have "DecodeString (EncodeToString (b0 # b1 # b2 # src)) =
      Some (char_of (v div 65536) # char_of (v div 256) # char_of v # src)"
    unfolding enc by (simp only: decode_simps digits64 [OF q(1)] "1.IH")
  moreover have "char_of (v div 65536) = b0" "char_of (v div 256) = b1" "char_of v = b2"
    by (rule char_of_byte, rule q)+
  ultimately show ?case by simp
next
  case (2 b0 b1)
  define v where "v = (of_char b0 * 65536 + of_char b1 * 256 :: nat)"
  define w where "w = (v div 262144 mod 64 * 64 + v div 4096 mod 64) * 64 + v div 64 mod 64"
  note q = quantum2 [OF of_char_lt of_char_lt, of b0 b1, folded v_def, folded w_def]
  have enc: "EncodeToString [b0, b1] =
      [enc6 (v div 262144), enc6 (v div 4096), enc6 (v div 64), CHR ''='']"
    by (simp only: EncodeToString.simps Let_def v_def)
  have "DecodeString (EncodeToString [b0, b1]) = Some [char_of (w div 1024), char_of (w div 4)]"
    unfolding enc w_def by (simp only: decode_simps)
  moreover have "char_of (w div 1024) = b0" "char_of (w div 4) = b1"
    by (rule char_of_byte, rule q)+
  ultimately show ?case by simp
next
  case (3 b0)
  define v where "v = (of_char b0 * 65536 :: nat)"
  define w where "w = v div 262144 mod 64 * 64 + v div 4096 mod 64"
  note q = quantum1 [OF of_char_lt, of b0, folded v_def, folded w_def]
  have enc: "EncodeToString [b0] = [enc6 (v div 262144), enc6 (v div 4096), CHR ''='', CHR ''='']"
    by (simp only: EncodeToString.simps Let_def v_def)
  have "DecodeString (EncodeToString [b0]) = Some [char_of (w div 16)]"
    unfolding enc w_def by (simp only: decode_simps)
  moreover have "char_of (w div 16) = b0"
    by (rule char_of_byte, rule q)
  ultimately show ?case by simp
next
  case 4
  then show ?case by simp
qed

text \<open>
  Claim C2. \<open>convertContentBlock\<close> has no error result and always yields a block with a
  \<open>type\<close> entry. An \<open>efs_document\<close> block with an empty path becomes the text block
  \<open>[File not available locally: empty path]\<close>; one whose (non-empty) path cannot be read
  becomes the text block \<open>[File not available locally: <path>]\<close>; a block whose type is
  none of \<open>text\<close>, \<open>image\<close>, \<open>document\<close>, \<open>efs_document\<close> becomes the text block
  \<open>[Unsupported content block: <type>]\<close>.
\<close>

theorem convertContentBlock_degrades_in_band:
  "(\<exists>ty rest. convertContentBlock fs block = JObject ((''type'', JString ty) # rest))
   \<and> (cb_Type block = ''efs_document'' \<and> cb_Path block = [] \<longrightarrow>
        convertContentBlock fs block =
          JObject [(''type'', JString ''text''),
                   (''text'', JString ''[File not available locally: empty path]'')])
   \<and> (cb_Type block = ''efs_document'' \<and> cb_Path block \<noteq> [] \<and> fs (cb_Path block) = None \<longrightarrow>
        convertContentBlock fs block =
          JObject [(''type'', JString ''text''),
                   (''text'', JString (''[File not available locally: '' @ cb_Path block @ '']''))])
   \<and> (cb_Type block \<notin> {''text'', ''image'', ''document'', ''efs_document''} \<longrightarrow>
        convertContentBlock fs block =
          JObject [(''type'', JString ''text''),
                   (''text'', JString (''[Unsupported content block: '' @ cb_Type block @ '']''))])"
proof (intro conjI impI)
  show "\<exists>ty rest. convertContentBlock fs block = JObject ((''type'', JString ty) # rest)"
    by (simp add: convertContentBlock_def convertEFSDocument_def Let_def split: option.split)
next
  assume "cb_Type block = ''efs_document'' \<and> cb_Path block = []"
  then show "convertContentBlock fs block =
      JObject [(''type'', JString ''text''),
               (''text'', JString ''[File not available locally: empty path]'')]"
    by (simp add: convertContentBlock_def convertEFSDocument_def)
next
  assume "cb_Type block = ''efs_document'' \<and> cb_Path block \<noteq> [] \<and> fs (cb_Path block) = None"
  then show "convertContentBlock fs block =
      JObject [(''type'', JString ''text''),
               (''text'', JString (''[File not available locally: '' @ cb_Path block @ '']''))]"
    by (simp add: convertContentBlock_def convertEFSDocument_def)
next
  assume "cb_Type block \<notin> {''text'', ''image'', ''document'', ''efs_document''}"
  then show "convertContentBlock fs block =
      JObject [(''type'', JString ''text''),
               (''text'', JString (''[Unsupported content block: '' @ cb_Type block @ '']''))]"
    by (simp add: convertContentBlock_def)
qed

text \<open>
  The three degradations at the blocks of the package's tests, on a file system that has
  no such file.
\<close>

theorem convertContentBlock_degrades_in_band_witness:
  "cb_Type (FileBlock []) = ''efs_document'' \<and> cb_Path (FileBlock []) = []
   \<and> convertContentBlock (ReadFile exampleWorld) (FileBlock []) =
        JObject [(''type'', JString ''text''),
                 (''text'', JString ''[File not available locally: empty path]'')]
   \<and> cb_Path (FileBlock ''/nonexistent/file.pdf'') \<noteq> []
   \<and> ReadFile exampleWorld (cb_Path (FileBlock ''/nonexistent/file.pdf'')) = None
   \<and> convertContentBlock (ReadFile exampleWorld) (FileBlock ''/nonexistent/file.pdf'') =
        JObject [(''type'', JString ''text''),
                 (''text'', JString ''[File not available locally: /nonexistent/file.pdf]'')]
   \<and> cb_Type (zeroContentBlock\<lparr>cb_Type := ''unknown_type''\<rparr>)
        \<notin> {''text'', ''image'', ''document'', ''efs_document''}
   \<and> convertContentBlock (ReadFile exampleWorld) (zeroContentBlock\<lparr>cb_Type := ''unknown_type''\<rparr>) =
        JObject [(''type'', JString ''text''),
                 (''text'', JString ''[Unsupported content block: unknown_type]'')]"
  using convertContentBlock_degrades_in_band [of "ReadFile exampleWorld" "FileBlock []"]
    convertContentBlock_degrades_in_band [of "ReadFile exampleWorld" "FileBlock ''/nonexistent/file.pdf''"]
    convertContentBlock_degrades_in_band [of "ReadFile exampleWorld" "zeroContentBlock\<lparr>cb_Type := ''unknown_type''\<rparr>"]
  by (simp add: FileBlock_def zeroContentBlock_def exampleWorld_def)

lemma convertContentBlock_efs_readable:
  assumes "cb_Type block = ''efs_document''" and "cb_Path block = p @ CHR ''.'' # ext"
    and "\<forall>c \<in> set ext. c \<noteq> CHR ''/'' \<and> c \<noteq> CHR ''.''" and "fs (cb_Path block) = Some B"
  shows "convertContentBlock fs block = document_block (docMediaType ext) (EncodeToString B)"
proof -
  have "TrimPrefix (Ext (cb_Path block)) ''.'' = ext"
    unfolding assms(2) by (rule TrimPrefix_Ext_suffix [OF assms(3)])
  moreover have "cb_Path block \<noteq> []" unfolding assms(2) by simp
  ultimately show ?thesis
    using assms(1,4) by (simp add: convertContentBlock_def convertEFSDocument_def document_block_def)
qed

text \<open>
  Claim C6. For every byte sequence \<open>B\<close> that \<open>ReadFile\<close> returns at a path ending in
  \<open>.pdf\<close>, the \<open>efs_document\<close> block of that path converts to a \<open>document\<close> block whose
  source has type \<open>base64\<close>, media type \<open>application/pdf\<close> and data the base64 encoding
  of \<open>B\<close>; decoding that data gives \<open>B\<close> back. For any extension (a suffix after a dot,
  itself free of dots and slashes) the media type is \<open>docMediaType\<close> of the extension, whose
  table is pdf, csv, txt, md, html, every other extension being
  \<open>application/octet-stream\<close>.
\<close>

theorem efs_document_pdf_roundtrip:
  "(cb_Type block = ''efs_document'' \<and> cb_Path block = p @ ''.pdf'' \<and> fs (cb_Path block) = Some B \<longrightarrow>
      convertContentBlock fs block = document_block ''application/pdf'' (EncodeToString B))
   \<and> DecodeString (EncodeToString B) = Some B
   \<and> (cb_Type block = ''efs_document'' \<and> cb_Path block = p @ ''.'' @ ext
       \<and> (\<forall>c \<in> set ext. c \<noteq> CHR ''/'' \<and> c \<noteq> CHR ''.'') \<and> fs (cb_Path block) = Some B \<longrightarrow>
      convertContentBlock fs block = document_block (docMediaType ext) (EncodeToString B))
   \<and> docMediaType ''pdf'' = ''application/pdf''
   \<and> docMediaType ''csv'' = ''text/csv''
   \<and> docMediaType ''txt'' = ''text/plain''
   \<and> docMediaType ''md'' = ''text/markdown''
   \<and> docMediaType ''html'' = ''text/html''
   \<and> (ext \<notin> {''pdf'', ''csv'', ''txt'', ''md'', ''html''} \<longrightarrow>
      docMediaType ext = ''application/octet-stream'')"
proof (intro conjI impI)
  assume a: "cb_Type block = ''efs_document'' \<and> cb_Path block = p @ ''.pdf'' \<and> fs (cb_Path block) = Some B"
  then have t: "cb_Type block = ''efs_document''" and f: "fs (cb_Path block) = Some B"
    and q: "cb_Path block = p @ CHR ''.'' # ''pdf''" by blast+
  have n: "\<forall>c \<in> set ''pdf''. c \<noteq> CHR ''/'' \<and> c \<noteq> CHR ''.''" by simp
  have "convertContentBlock fs block = document_block (docMediaType ''pdf'') (EncodeToString B)"
    by (rule convertContentBlock_efs_readable [where fs = fs and p = p, OF t q n f])
  then show "convertContentBlock fs block = document_block ''application/pdf'' (EncodeToString B)"
    by (simp only: docMediaType_table)
next
  show "DecodeString (EncodeToString B) = Some B" by (rule DecodeString_EncodeToString)
next
  assume a: "cb_Type block = ''efs_document'' \<and> cb_Path block = p @ ''.'' @ ext
       \<and> (\<forall>c \<in> set ext. c \<noteq> CHR ''/'' \<and> c \<noteq> CHR ''.'') \<and> fs (cb_Path block) = Some B"
  then have t: "cb_Type block = ''efs_document''" and f: "fs (cb_Path block) = Some B"
    and q: "cb_Path block = p @ CHR ''.'' # ext"
    and n: "\<forall>c \<in> set ext. c \<noteq> CHR ''/'' \<and> c \<noteq> CHR ''.''" by (blast, blast, simp, blast)
  show "convertContentBlock fs block = document_block (docMediaType ext) (EncodeToString B)"
    by (rule convertContentBlock_efs_readable [where fs = fs and p = p, OF t q n f])
next
  assume "ext \<notin> {''pdf'', ''csv'', ''txt'', ''md'', ''html''}"
  then show "docMediaType ext = ''application/octet-stream''" by (rule docMediaType_unknown)
qed (rule docMediaType_table)+

text \<open>
  The test of the package: a file \<open>test.pdf\<close> holding \<open>fake pdf content\<close>.
\<close>

theorem efs_document_pdf_roundtrip_witness:
  "cb_Type (FileBlock ''/tmp/test.pdf'') = ''efs_document''
   \<and> cb_Path (FileBlock ''/tmp/test.pdf'') = ''/tmp/test'' @ ''.pdf''
   \<and> ReadFile exampleWorld (cb_Path (FileBlock ''/tmp/test.pdf'')) = Some ''fake pdf content''
   \<and> convertContentBlock (ReadFile exampleWorld) (FileBlock ''/tmp/test.pdf'') =
        document_block ''application/pdf'' ''ZmFrZSBwZGYgY29udGVudA==''
   \<and> DecodeString ''ZmFrZSBwZGYgY29udGVudA=='' = Some ''fake pdf content''
   \<and> ''bin'' \<notin> {''pdf'', ''csv'', ''txt'', ''md'', ''html''}
   \<and> docMediaType ''bin'' = ''application/octet-stream''"
proof -
  have e: "EncodeToString ''fake pdf content'' = ''ZmFrZSBwZGYgY29udGVudA==''"
    by (simp add: enc6_def encodeStd_def)
  have h: "cb_Type (FileBlock ''/tmp/test.pdf'') = ''efs_document''
     \<and> cb_Path (FileBlock ''/tmp/test.pdf'') = ''/tmp/test'' @ ''.pdf''
     \<and> ReadFile exampleWorld (cb_Path (FileBlock ''/tmp/test.pdf'')) = Some ''fake pdf content''"
    by (simp add: FileBlock_def zeroContentBlock_def exampleWorld_def)
  have u: "''bin'' \<notin> {''pdf'', ''csv'', ''txt'', ''md'', ''html''}" by simp
  note t = efs_document_pdf_roundtrip [of "FileBlock ''/tmp/test.pdf''" "''/tmp/test''"
        "ReadFile exampleWorld" "''fake pdf content''" "''bin''"]
  from t h have "convertContentBlock (ReadFile exampleWorld) (FileBlock ''/tmp/test.pdf'') =
        document_block ''application/pdf'' (EncodeToString ''fake pdf content'')" by blast
  then have c: "convertContentBlock (ReadFile exampleWorld) (FileBlock ''/tmp/test.pdf'') =
        document_block ''application/pdf'' ''ZmFrZSBwZGYgY29udGVudA==''" by (simp only: e)
  from t have "DecodeString (EncodeToString ''fake pdf content'') = Some ''fake pdf content''"
    by blast
  then have d: "DecodeString ''ZmFrZSBwZGYgY29udGVudA=='' = Some ''fake pdf content''"
    by (simp only: e)
  from t u have o: "docMediaType ''bin'' = ''application/octet-stream''" by blast
  from h c d u o show ?thesis by blast
qed


section \<open>The mock backend: proofs\<close>

lemma promptText_blocks_find:
  "promptText_blocks blocks =
     (case find (\<lambda>block. cb_Type block = ''text'' \<and> cb_Text block \<noteq> []) blocks of
        None \<Rightarrow> [] | Some block \<Rightarrow> cb_Text block)"
  by (induction blocks) simp_all

lemma promptText_from_find:
  "n \<le> length messages \<Longrightarrow>
   promptText_from messages n =
     (case find (\<lambda>m. msg_Role m = ''user'') (rev (take n messages)) of
        None \<Rightarrow> [] | Some m \<Rightarrow> firstNonEmptyText m)"
proof (induction n)
  case 0
  then show ?case by simp
next
  case (Suc i)
  then have "i < length messages" by simp
  then have "rev (take (Suc i) messages) = messages ! i # rev (take i messages)"
    by (simp add: take_Suc_conv_app_nth)
  then show ?case
    using Suc by (simp add: firstNonEmptyText_def promptText_blocks_find)
qed

lemma promptText_from_promptOf:
  "promptText_from (req_Messages req) (length (req_Messages req)) = promptOf req"
  by (simp add: promptText_from_find promptOf_def mostRecentUserMessage_def)

lemma Text_from_single: "Text_from [\<lparr>rc_Type = ''text'', rc_Text = t\<rparr>] [] = t"
  by simp

lemma MockBackend_Invoke_default:
  assumes "mock_responses b = []"
  shows "MockBackend_Invoke b req =
     (Inr (Some \<lparr>resp_Content = [\<lparr>rc_Type = ''text'', rc_Text = ''[mock] '' @ promptOf req\<rparr>],
                  resp_Model = req_Model req,
                  resp_Usage = zeroUsageInfo,
                  resp_BudgetRemaining = zeroBudgetInfo,
                  resp_StopReason = ''end_turn''\<rparr>),
      b\<lparr>mock_callLog := mock_callLog b @ [req]\<rparr>)"
  using assms by (simp add: MockBackend_Invoke_def Let_def promptText_from_promptOf)

text \<open>
  Claim C8. When no response is registered, \<open>Invoke\<close> of the mock returns a response
  whose only content block is the text \<open>[mock] \<close> followed by the text of the first
  non-empty text block of the most recent message of role user (\<^const>\<open>promptOf\<close>), whose
  stop reason is \<open>end_turn\<close> and whose model is the requested one.
\<close>

theorem MockBackend_default_echo:
  assumes "mock_responses b = []"
  shows "\<exists>resp. fst (MockBackend_Invoke b req) = Inr (Some resp)
           \<and> resp_Content resp = [\<lparr>rc_Type = ''text'', rc_Text = ''[mock] '' @ promptOf req\<rparr>]
           \<and> Text resp = ''[mock] '' @ promptOf req
           \<and> resp_StopReason resp = ''end_turn''
           \<and> resp_Model resp = req_Model req"
  by (simp add: MockBackend_Invoke_default [OF assms] Text_def)

text \<open>
  The test of the package: a single user text block \<open>Hello world\<close> gives exactly
  \<open>[mock] Hello world\<close>.
\<close>

theorem MockBackend_default_echo_witness:
  "mock_responses NewMockBackend = []
   \<and> promptOf (zeroInvokeRequest\<lparr>req_Model := ModelHaiku45,
        req_Messages := [UserMessage [TextBlock ''Hello world'']]\<rparr>) = ''Hello world''
   \<and> (\<exists>resp. fst (MockBackend_Invoke NewMockBackend
          (zeroInvokeRequest\<lparr>req_Model := ModelHaiku45,
             req_Messages := [UserMessage [TextBlock ''Hello world'']]\<rparr>)) = Inr (Some resp)
        \<and> Text resp = ''[mock] Hello world''
        \<and> resp_StopReason resp = ''end_turn''
        \<and> resp_Model resp = ModelHaiku45)"
proof -
  have h: "mock_responses NewMockBackend = []" by (simp add: NewMockBackend_def)
  have p: "promptOf (zeroInvokeRequest\<lparr>req_Model := ModelHaiku45,
        req_Messages := [UserMessage [TextBlock ''Hello world'']]\<rparr>) = ''Hello world''"
    by (simp add: promptOf_def mostRecentUserMessage_def firstNonEmptyText_def
        zeroInvokeRequest_def UserMessage_def TextBlock_def zeroContentBlock_def)
  from MockBackend_default_echo [OF h, of "zeroInvokeRequest\<lparr>req_Model := ModelHaiku45,
        req_Messages := [UserMessage [TextBlock ''Hello world'']]\<rparr>"]
  obtain resp where r: "fst (MockBackend_Invoke NewMockBackend
          (zeroInvokeRequest\<lparr>req_Model := ModelHaiku45,
             req_Messages := [UserMessage [TextBlock ''Hello world'']]\<rparr>)) = Inr (Some resp)"
    and t: "Text resp = ''[mock] '' @ promptOf (zeroInvokeRequest\<lparr>req_Model := ModelHaiku45,
             req_Messages := [UserMessage [TextBlock ''Hello world'']]\<rparr>)"
    and s: "resp_StopReason resp = ''end_turn''"
    and m: "resp_Model resp = req_Model (zeroInvokeRequest\<lparr>req_Model := ModelHaiku45,
             req_Messages := [UserMessage [TextBlock ''Hello world'']]\<rparr>)"
    by blast
  have t': "Text resp = ''[mock] Hello world''" unfolding t p by simp
  have m': "resp_Model resp = ModelHaiku45" unfolding m by simp
  from h p r t' s m' show ?thesis by blast
qed

lemma MockBackend_Invoke_registered:
  assumes "mock_responses b \<noteq> []"
  shows "fst (MockBackend_Invoke b req) = Inr (mock_responses b ! 0)"
    and "mock_responses (snd (MockBackend_Invoke b req)) =
           (if length (mock_responses b) > 1 then drop 1 (mock_responses b) else mock_responses b)"
  using assms by (simp_all add: MockBackend_Invoke_def Let_def)

lemma MockBackend_Invokes_nth:
  assumes "mock_responses b \<noteq> []" and "i < length reqs"
  shows "fst (MockBackend_Invokes b reqs) ! i =
           Inr (mock_responses b ! min i (length (mock_responses b) - 1))"
  using assms
proof (induction reqs arbitrary: b i)
  case Nil
  then show ?case by simp
next
  case (Cons req reqs)
  obtain r b' where inv: "MockBackend_Invoke b req = (r, b')" by (cases "MockBackend_Invoke b req")
  obtain rs b'' where invs: "MockBackend_Invokes b' reqs = (rs, b'')"
    by (cases "MockBackend_Invokes b' reqs")
  have r: "r = Inr (mock_responses b ! 0)"
    using MockBackend_Invoke_registered(1) [OF Cons.prems(1), of req] inv by simp
  have b': "mock_responses b' =
      (if length (mock_responses b) > 1 then drop 1 (mock_responses b) else mock_responses b)"
    using MockBackend_Invoke_registered(2) [OF Cons.prems(1), of req] inv by simp
  have all: "fst (MockBackend_Invokes b (req # reqs)) = r # rs"
    by (simp add: inv invs)
  show ?case
  proof (cases i)
    case 0
    show ?thesis unfolding all 0 r by simp
  next
    case (Suc j)
    then have j: "j < length reqs" using Cons.prems(2) by simp
    have ne: "mock_responses b' \<noteq> []" using b' Cons.prems(1) by (auto split: if_splits)
    have "rs ! j = Inr (mock_responses b' ! min j (length (mock_responses b') - 1))"
      using Cons.IH [OF ne j] invs by simp
    also have "mock_responses b' ! min j (length (mock_responses b') - 1) =
        mock_responses b ! min (Suc j) (length (mock_responses b) - 1)"
    proof (cases "length (mock_responses b) > 1")
      case True
      have d: "mock_responses b' = drop 1 (mock_responses b)" using b' True by simp
      have l: "length (mock_responses b') - 1 = length (mock_responses b) - 2"
        unfolding d by simp
      have k: "Suc (min j (length (mock_responses b) - 2)) = min (Suc j) (length (mock_responses b) - 1)"
        using True by linarith
      have "mock_responses b' ! min j (length (mock_responses b) - 2) =
          mock_responses b ! Suc (min j (length (mock_responses b) - 2))"
        unfolding d using True by simp
      then show ?thesis unfolding l k .
    next
      case False
      then have "length (mock_responses b) = 1"
        using Cons.prems(1) by (cases "mock_responses b") auto
      then show ?thesis using b' by simp
    qed
    finally show ?thesis unfolding all Suc by simp
  qed
qed

lemma length_MockBackend_Invokes: "length (fst (MockBackend_Invokes b reqs)) = length reqs"
proof (induction reqs arbitrary: b)
  case Nil
  then show ?case by simp
next
  case (Cons req reqs)
  obtain r b' where inv: "MockBackend_Invoke b req = (r, b')" by (cases "MockBackend_Invoke b req")
  obtain rs b'' where invs: "MockBackend_Invokes b' reqs = (rs, b'')"
    by (cases "MockBackend_Invokes b' reqs")
  have "length rs = length reqs" using Cons.IH [of b'] invs by simp
  moreover have "fst (MockBackend_Invokes b (req # reqs)) = r # rs" by (simp add: inv invs)
  ultimately show ?case by simp
qed

text \<open>
  Claim C9. After \<open>SetResponses\<close> with a non-empty sequence of \<open>n\<close> responses, the call
  number \<open>i\<close> (counted from 0 here) returns the response at index \<open>min i (n - 1)\<close>: the
  responses come in order and the last one repeats. After \<open>SetResponse\<close> every call returns
  that one response. A run of calls gives one result per request.
\<close>

theorem MockBackend_responses_in_order:
  "(responses \<noteq> [] \<and> i < length reqs \<longrightarrow>
      fst (MockBackend_Invokes (SetResponses b responses) reqs) ! i =
        Inr (responses ! min i (length responses - 1)))
   \<and> (i < length reqs \<longrightarrow>
      fst (MockBackend_Invokes (SetResponse b resp) reqs) ! i = Inr resp)
   \<and> length (fst (MockBackend_Invokes b reqs)) = length reqs"
proof (intro conjI impI)
  assume a: "responses \<noteq> [] \<and> i < length reqs"
  then have "mock_responses (SetResponses b responses) \<noteq> []" by (simp add: SetResponses_def)
  from MockBackend_Invokes_nth [OF this, of i reqs] a
  show "fst (MockBackend_Invokes (SetResponses b responses) reqs) ! i =
        Inr (responses ! min i (length responses - 1))"
    by (simp add: SetResponses_def)
next
  assume a: "i < length reqs"
  have "mock_responses (SetResponse b resp) \<noteq> []" by (simp add: SetResponse_def)
  from MockBackend_Invokes_nth [OF this a]
  show "fst (MockBackend_Invokes (SetResponse b resp) reqs) ! i = Inr resp"
    by (simp add: SetResponse_def)
next
  show "length (fst (MockBackend_Invokes b reqs)) = length reqs"
    by (rule length_MockBackend_Invokes)
qed

text \<open>
  The test of the package: \<open>first\<close>, \<open>second\<close> registered and three calls give
  \<open>first\<close>, \<open>second\<close>, \<open>second\<close>.
\<close>

theorem MockBackend_responses_in_order_witness:
  "[Some (exampleResponse ''first''), Some (exampleResponse ''second'')] \<noteq> []
   \<and> (2::nat) < length [zeroInvokeRequest, zeroInvokeRequest, zeroInvokeRequest]
   \<and> fst (MockBackend_Invokes
        (SetResponses NewMockBackend [Some (exampleResponse ''first''), Some (exampleResponse ''second'')])
        [zeroInvokeRequest, zeroInvokeRequest, zeroInvokeRequest]) ! 0 = Inr (Some (exampleResponse ''first''))
   \<and> fst (MockBackend_Invokes
        (SetResponses NewMockBackend [Some (exampleResponse ''first''), Some (exampleResponse ''second'')])
        [zeroInvokeRequest, zeroInvokeRequest, zeroInvokeRequest]) ! 1 = Inr (Some (exampleResponse ''second''))
   \<and> fst (MockBackend_Invokes
        (SetResponses NewMockBackend [Some (exampleResponse ''first''), Some (exampleResponse ''second'')])
        [zeroInvokeRequest, zeroInvokeRequest, zeroInvokeRequest]) ! 2 = Inr (Some (exampleResponse ''second''))
   \<and> fst (MockBackend_Invokes (SetResponse NewMockBackend (Some (exampleResponse ''canned'')))
        [zeroInvokeRequest, zeroInvokeRequest, zeroInvokeRequest]) ! 2 = Inr (Some (exampleResponse ''canned''))
   \<and> Text (exampleResponse ''first'') = ''first'' \<and> Text (exampleResponse ''second'') = ''second''"
  using MockBackend_responses_in_order [of "[Some (exampleResponse ''first''), Some (exampleResponse ''second'')]"
      0 "[zeroInvokeRequest, zeroInvokeRequest, zeroInvokeRequest]" NewMockBackend]
    MockBackend_responses_in_order [of "[Some (exampleResponse ''first''), Some (exampleResponse ''second'')]"
      1 "[zeroInvokeRequest, zeroInvokeRequest, zeroInvokeRequest]" NewMockBackend]
    MockBackend_responses_in_order [of "[Some (exampleResponse ''first''), Some (exampleResponse ''second'')]"
      2 "[zeroInvokeRequest, zeroInvokeRequest, zeroInvokeRequest]" NewMockBackend
      "Some (exampleResponse ''canned'')"]
  by (simp add: Text_def exampleResponse_def zeroInvokeResponse_def del: MockBackend_Invokes.simps)

lemma find_Some_set: "find P xs = Some x \<Longrightarrow> x \<in> set xs \<and> P x"
  by (induction xs) (auto split: if_splits)

lemma promptOf_empty:
  assumes "(\<forall>m \<in> set (req_Messages req). msg_Role m \<noteq> ''user'')
     \<or> (\<forall>m \<in> set (req_Messages req). \<forall>block \<in> set (msg_Content m).
           \<not> (cb_Type block = ''text'' \<and> cb_Text block \<noteq> []))"
  shows "promptOf req = []"
proof (cases "mostRecentUserMessage (req_Messages req)")
  case None
  then show ?thesis by (simp add: promptOf_def)
next
  case (Some m)
  then have m: "m \<in> set (req_Messages req)" and u: "msg_Role m = ''user''"
    unfolding mostRecentUserMessage_def by (auto dest: find_Some_set)
  with assms have "\<forall>block \<in> set (msg_Content m). \<not> (cb_Type block = ''text'' \<and> cb_Text block \<noteq> [])"
    by blast
  then have "find (\<lambda>block. cb_Type block = ''text'' \<and> cb_Text block \<noteq> []) (msg_Content m) = None"
    by (simp add: find_None_iff)
  then show ?thesis using Some by (simp add: promptOf_def firstNonEmptyText_def)
qed

text \<open>
  Claim C10 says that \<open>Invoke\<close> of the mock returns a non-nil response for every request.
  \<open>SetResponse\<close> takes a pointer, and the mock hands a registered nil pointer back as it
  is: after \<open>SetResponse(nil)\<close> a call returns a nil response with a nil error.
\<close>

theorem MockBackend_nil_response_counterexample:
  "fst (MockBackend_Invoke (SetResponse NewMockBackend None) zeroInvokeRequest) = Inr None"
  by (simp add: MockBackend_Invoke_def SetResponse_def NewMockBackend_def)

text \<open>
  Claim C10, amended. For every request, \<open>Invoke\<close> of the mock returns a nil error and
  appends the request to the call log; the response is non-nil whenever no nil response is
  registered; and when no response is registered and the request has no user message, or
  no non-empty text block, the text of the response is exactly \<open>[mock] \<close>.
\<close>

theorem MockBackend_Invoke_never_errors:
  "(\<exists>r. fst (MockBackend_Invoke b req) = Inr r)
   \<and> (None \<notin> set (mock_responses b) \<longrightarrow> (\<exists>resp. fst (MockBackend_Invoke b req) = Inr (Some resp)))
   \<and> mock_callLog (snd (MockBackend_Invoke b req)) = mock_callLog b @ [req]
   \<and> (mock_responses b = []
       \<and> ((\<forall>m \<in> set (req_Messages req). msg_Role m \<noteq> ''user'')
           \<or> (\<forall>m \<in> set (req_Messages req). \<forall>block \<in> set (msg_Content m).
                 \<not> (cb_Type block = ''text'' \<and> cb_Text block \<noteq> []))) \<longrightarrow>
       (\<exists>resp. fst (MockBackend_Invoke b req) = Inr (Some resp)
          \<and> resp_Content resp = [\<lparr>rc_Type = ''text'', rc_Text = ''[mock] ''\<rparr>]
          \<and> Text resp = ''[mock] ''))"
proof (intro conjI impI)
  show "\<exists>r. fst (MockBackend_Invoke b req) = Inr r"
    by (simp add: MockBackend_Invoke_def Let_def)
next
  assume n: "None \<notin> set (mock_responses b)"
  show "\<exists>resp. fst (MockBackend_Invoke b req) = Inr (Some resp)"
  proof (cases "mock_responses b")
    case Nil
    then show ?thesis by (simp add: MockBackend_Invoke_default)
  next
    case (Cons r rs)
    with n obtain resp where "r = Some resp" by (cases r) auto
    then show ?thesis using Cons by (simp add: MockBackend_Invoke_def Let_def)
  qed
next
  show "mock_callLog (snd (MockBackend_Invoke b req)) = mock_callLog b @ [req]"
    by (simp add: MockBackend_Invoke_def Let_def)
next
  assume a: "mock_responses b = []
       \<and> ((\<forall>m \<in> set (req_Messages req). msg_Role m \<noteq> ''user'')
           \<or> (\<forall>m \<in> set (req_Messages req). \<forall>block \<in> set (msg_Content m).
                 \<not> (cb_Type block = ''text'' \<and> cb_Text block \<noteq> [])))"
  then have e: "mock_responses b = []" and p: "promptOf req = []"
    using promptOf_empty [of req] by blast+
  show "\<exists>resp. fst (MockBackend_Invoke b req) = Inr (Some resp)
          \<and> resp_Content resp = [\<lparr>rc_Type = ''text'', rc_Text = ''[mock] ''\<rparr>]
          \<and> Text resp = ''[mock] ''"
    by (simp add: MockBackend_Invoke_default [OF e] p Text_def)
qed

text \<open>
  A fresh mock and a request whose only message is the assistant's.
\<close>

theorem MockBackend_Invoke_never_errors_witness:
  "None \<notin> set (mock_responses NewMockBackend)
   \<and> mock_responses NewMockBackend = []
   \<and> req_Messages (zeroInvokeRequest\<lparr>req_Messages := [AssistantMessage [TextBlock ''Hi'']]\<rparr>) =
        [AssistantMessage [TextBlock ''Hi'']]
   \<and> msg_Role (AssistantMessage [TextBlock ''Hi'']) \<noteq> ''user''
   \<and> (\<exists>resp. fst (MockBackend_Invoke NewMockBackend
                (zeroInvokeRequest\<lparr>req_Messages := [AssistantMessage [TextBlock ''Hi'']]\<rparr>)) = Inr (Some resp)
          \<and> Text resp = ''[mock] '')
   \<and> mock_callLog (snd (MockBackend_Invoke NewMockBackend
                (zeroInvokeRequest\<lparr>req_Messages := [AssistantMessage [TextBlock ''Hi'']]\<rparr>))) =
        [zeroInvokeRequest\<lparr>req_Messages := [AssistantMessage [TextBlock ''Hi'']]\<rparr>]"
proof -
  have h: "None \<notin> set (mock_responses NewMockBackend)" "mock_responses NewMockBackend = []"
    by (simp_all add: NewMockBackend_def)
  have u: "\<forall>m \<in> set (req_Messages (zeroInvokeRequest\<lparr>req_Messages := [AssistantMessage [TextBlock ''Hi'']]\<rparr>)).
         msg_Role m \<noteq> ''user''"
    by (simp add: AssistantMessage_def)
  note t = MockBackend_Invoke_never_errors [of NewMockBackend
      "zeroInvokeRequest\<lparr>req_Messages := [AssistantMessage [TextBlock ''Hi'']]\<rparr>"]
  from t h u have r: "\<exists>resp. fst (MockBackend_Invoke NewMockBackend
                (zeroInvokeRequest\<lparr>req_Messages := [AssistantMessage [TextBlock ''Hi'']]\<rparr>)) = Inr (Some resp)
          \<and> Text resp = ''[mock] ''" by blast
  from t have "mock_callLog (snd (MockBackend_Invoke NewMockBackend
                (zeroInvokeRequest\<lparr>req_Messages := [AssistantMessage [TextBlock ''Hi'']]\<rparr>))) =
        mock_callLog NewMockBackend @ [zeroInvokeRequest\<lparr>req_Messages := [AssistantMessage [TextBlock ''Hi'']]\<rparr>]"
    by blast
  then have l: "mock_callLog (snd (MockBackend_Invoke NewMockBackend
                (zeroInvokeRequest\<lparr>req_Messages := [AssistantMessage [TextBlock ''Hi'']]\<rparr>))) =
        [zeroInvokeRequest\<lparr>req_Messages := [AssistantMessage [TextBlock ''Hi'']]\<rparr>]"
    by (simp add: NewMockBackend_def)
  have q: "req_Messages (zeroInvokeRequest\<lparr>req_Messages := [AssistantMessage [TextBlock ''Hi'']]\<rparr>) =
        [AssistantMessage [TextBlock ''Hi'']]"
    and a: "msg_Role (AssistantMessage [TextBlock ''Hi'']) \<noteq> ''user''"
    by (simp_all add: AssistantMessage_def)
  from h q a r l show ?thesis by blast
qed


section \<open>The direct-provider backend: proofs\<close>

lemma Invoke_content_filter:
  "Invoke_content blocks content =
     content @ map (\<lambda>block. \<lparr>rc_Type = ''text'', rc_Text = acb_Text block\<rparr>)
                   (filter (\<lambda>block. acb_Type block = ''text'') blocks)"
  by (induction blocks arbitrary: content) simp_all

lemma Invoke_apiReq_messages:
  "areq_Messages (Invoke_apiReq w req) =
     map (\<lambda>msg. JObject [(''role'', JString (msg_Role msg)),
                          (''content'', JArray (map (convertContentBlock (ReadFile w))
                                                    (msg_Content msg)))])
         (req_Messages req)"
  by (simp add: Invoke_apiReq_def Let_def convertMessages_def)

lemma AnthropicBackend_Invoke_sent:
  assumes "Marshal_anthropicRequest w (Invoke_apiReq w req) = Inr body"
  shows "snd (AnthropicBackend_Invoke w b req) =
     [HttpSent \<lparr>hr_Method = ''POST'',
                hr_URL = ''https://api.anthropic.com/v1/messages'',
                hr_Header = [(''Content-Type'', ''application/json''),
                             (''X-Api-Key'', ab_apiKey b),
                             (''Anthropic-Version'', ''2023-06-01'')],
                hr_Body = body\<rparr>]"
  using assms
  by (simp add: AnthropicBackend_Invoke_def Invoke_httpReq_def Let_def
      split: httpOutcome.split option.split sum.split)

lemma AnthropicBackend_Invoke_success:
  assumes "Marshal_anthropicRequest w (Invoke_apiReq w req) = Inr body"
    and "HttpDo w \<lparr>hr_Method = ''POST'',
                hr_URL = ''https://api.anthropic.com/v1/messages'',
                hr_Header = [(''Content-Type'', ''application/json''),
                             (''X-Api-Key'', ab_apiKey b),
                             (''Anthropic-Version'', ''2023-06-01'')],
                hr_Body = body\<rparr> = Responded 200 respBody"
    and "Unmarshal_anthropicResponse w respBody = Inr apiResp"
  shows "fst (AnthropicBackend_Invoke w b req) = Inr (Some (Invoke_response apiResp))"
  using assms by (simp add: AnthropicBackend_Invoke_def Invoke_httpReq_def Let_def)

text \<open>
  Claim C7. The provider request that \<open>Invoke\<close> of the direct-provider backend builds
  has the model resolved through \<open>MapModel\<close>, \<open>max_tokens\<close> 1024 when the request's
  \<open>maxTokens\<close> is zero and the request's value otherwise, the request's system text and
  temperature, and one message per message of the request, in order, with the same role
  and with every content block converted by \<open>convertContentBlock\<close>. Once marshalled, that
  request is the body of the one HTTP request sent: a POST to the messages endpoint with
  the content type, the API key and the protocol version as headers. For a reply with
  status 200 that decodes, the response holds exactly the reply's text blocks, in order,
  and the reply's token counters.
\<close>

theorem AnthropicBackend_Invoke_request_and_reply:
  "areq_Model (Invoke_apiReq w req) = MapModel (req_Model req)
   \<and> areq_MaxTokens (Invoke_apiReq w req) =
        (if req_MaxTokens req = 0 then 1024 else req_MaxTokens req)
   \<and> areq_System (Invoke_apiReq w req) = req_System req
   \<and> areq_Temperature (Invoke_apiReq w req) = req_Temperature req
   \<and> areq_Messages (Invoke_apiReq w req) =
        map (\<lambda>msg. JObject [(''role'', JString (msg_Role msg)),
                             (''content'', JArray (map (convertContentBlock (ReadFile w))
                                                       (msg_Content msg)))])
            (req_Messages req)
   \<and> (Marshal_anthropicRequest w (Invoke_apiReq w req) = Inr body \<longrightarrow>
        snd (AnthropicBackend_Invoke w b req) =
          [HttpSent \<lparr>hr_Method = ''POST'',
                     hr_URL = ''https://api.anthropic.com/v1/messages'',
                     hr_Header = [(''Content-Type'', ''application/json''),
                                  (''X-Api-Key'', ab_apiKey b),
                                  (''Anthropic-Version'', ''2023-06-01'')],
                     hr_Body = body\<rparr>])
   \<and> (Marshal_anthropicRequest w (Invoke_apiReq w req) = Inr body
        \<and> HttpDo w \<lparr>hr_Method = ''POST'',
                     hr_URL = ''https://api.anthropic.com/v1/messages'',
                     hr_Header = [(''Content-Type'', ''application/json''),
                                  (''X-Api-Key'', ab_apiKey b),
                                  (''Anthropic-Version'', ''2023-06-01'')],
                     hr_Body = body\<rparr> = Responded 200 respBody
        \<and> Unmarshal_anthropicResponse w respBody = Inr apiResp \<longrightarrow>
        (\<exists>resp. fst (AnthropicBackend_Invoke w b req) = Inr (Some resp)
           \<and> resp_Content resp =
               map (\<lambda>block. \<lparr>rc_Type = ''text'', rc_Text = acb_Text block\<rparr>)
                   (filter (\<lambda>block. acb_Type block = ''text'') (aresp_Content apiResp))
           \<and> usage_InputTokens (resp_Usage resp) = au_InputTokens (aresp_Usage apiResp)
           \<and> usage_OutputTokens (resp_Usage resp) = au_OutputTokens (aresp_Usage apiResp)))"
proof (intro conjI impI)
  show "areq_Messages (Invoke_apiReq w req) =
        map (\<lambda>msg. JObject [(''role'', JString (msg_Role msg)),
                             (''content'', JArray (map (convertContentBlock (ReadFile w))
                                                       (msg_Content msg)))])
            (req_Messages req)"
    by (rule Invoke_apiReq_messages)
next
  assume "Marshal_anthropicRequest w (Invoke_apiReq w req) = Inr body"
  then show "snd (AnthropicBackend_Invoke w b req) =
          [HttpSent \<lparr>hr_Method = ''POST'',
                     hr_URL = ''https://api.anthropic.com/v1/messages'',
                     hr_Header = [(''Content-Type'', ''application/json''),
                                  (''X-Api-Key'', ab_apiKey b),
                                  (''Anthropic-Version'', ''2023-06-01'')],
                     hr_Body = body\<rparr>]"
    by (rule AnthropicBackend_Invoke_sent)
next
  assume a: "Marshal_anthropicRequest w (Invoke_apiReq w req) = Inr body
        \<and> HttpDo w \<lparr>hr_Method = ''POST'',
                     hr_URL = ''https://api.anthropic.com/v1/messages'',
                     hr_Header = [(''Content-Type'', ''application/json''),
                                  (''X-Api-Key'', ab_apiKey b),
                                  (''Anthropic-Version'', ''2023-06-01'')],
                     hr_Body = body\<rparr> = Responded 200 respBody
        \<and> Unmarshal_anthropicResponse w respBody = Inr apiResp"
  then have "fst (AnthropicBackend_Invoke w b req) = Inr (Some (Invoke_response apiResp))"
    using AnthropicBackend_Invoke_success by blast
  then show "\<exists>resp. fst (AnthropicBackend_Invoke w b req) = Inr (Some resp)
           \<and> resp_Content resp =
               map (\<lambda>block. \<lparr>rc_Type = ''text'', rc_Text = acb_Text block\<rparr>)
                   (filter (\<lambda>block. acb_Type block = ''text'') (aresp_Content apiResp))
           \<and> usage_InputTokens (resp_Usage resp) = au_InputTokens (aresp_Usage apiResp)
           \<and> usage_OutputTokens (resp_Usage resp) = au_OutputTokens (aresp_Usage apiResp)"
    by (simp add: Invoke_response_def Invoke_content_filter)
qed (simp_all add: Invoke_apiReq_def Let_def)

text \<open>
  A request for \<open>ModelHaiku45\<close> with no \<open>maxTokens\<close>, whose user message holds a text
  block and a file that is not there; the reply holds a tool-use block between two text
  blocks.
\<close>

theorem AnthropicBackend_Invoke_request_and_reply_witness:
  "areq_Model (Invoke_apiReq exampleWorld
      (zeroInvokeRequest\<lparr>req_Model := ModelHaiku45, req_System := ''Be brief'',
         req_Messages := [UserMessage [TextBlock ''Hello'', FileBlock ''/nonexistent/file.pdf'']]\<rparr>)) =
      ''claude-haiku-4-5-20251001''
   \<and> areq_MaxTokens (Invoke_apiReq exampleWorld
      (zeroInvokeRequest\<lparr>req_Model := ModelHaiku45, req_System := ''Be brief'',
         req_Messages := [UserMessage [TextBlock ''Hello'', FileBlock ''/nonexistent/file.pdf'']]\<rparr>)) = 1024
   \<and> areq_MaxTokens (Invoke_apiReq exampleWorld (zeroInvokeRequest\<lparr>req_MaxTokens := 2048\<rparr>)) = 2048
   \<and> areq_System (Invoke_apiReq exampleWorld
      (zeroInvokeRequest\<lparr>req_Model := ModelHaiku45, req_System := ''Be brief'',
         req_Messages := [UserMessage [TextBlock ''Hello'', FileBlock ''/nonexistent/file.pdf'']]\<rparr>)) =
      ''Be brief''
   \<and> areq_Messages (Invoke_apiReq exampleWorld
      (zeroInvokeRequest\<lparr>req_Model := ModelHaiku45, req_System := ''Be brief'',
         req_Messages := [UserMessage [TextBlock ''Hello'', FileBlock ''/nonexistent/file.pdf'']]\<rparr>)) =
      [JObject [(''role'', JString ''user''),
                (''content'', JArray
                   [JObject [(''type'', JString ''text''), (''text'', JString ''Hello'')],
                    JObject [(''type'', JString ''text''),
                             (''text'', JString ''[File not available locally: /nonexistent/file.pdf]'')]])]]
   \<and> Marshal_anthropicRequest exampleWorld (Invoke_apiReq exampleWorld
      (zeroInvokeRequest\<lparr>req_Model := ModelHaiku45, req_System := ''Be brief'',
         req_Messages := [UserMessage [TextBlock ''Hello'', FileBlock ''/nonexistent/file.pdf'']]\<rparr>)) =
      Inr ''{model:claude-haiku-4-5-20251001,messages:[{role:user,content:[{type:text,text:Hello},{type:text,text:[File not available locally: /nonexistent/file.pdf]}]}]}''
   \<and> snd (AnthropicBackend_Invoke exampleWorld \<lparr>ab_apiKey = ''sk-ant-test''\<rparr>
      (zeroInvokeRequest\<lparr>req_Model := ModelHaiku45, req_System := ''Be brief'',
         req_Messages := [UserMessage [TextBlock ''Hello'', FileBlock ''/nonexistent/file.pdf'']]\<rparr>)) =
      [HttpSent \<lparr>hr_Method = ''POST'',
                 hr_URL = ''https://api.anthropic.com/v1/messages'',
                 hr_Header = [(''Content-Type'', ''application/json''),
                              (''X-Api-Key'', ''sk-ant-test''),
                              (''Anthropic-Version'', ''2023-06-01'')],
                 hr_Body = ''{model:claude-haiku-4-5-20251001,messages:[{role:user,content:[{type:text,text:Hello},{type:text,text:[File not available locally: /nonexistent/file.pdf]}]}]}''\<rparr>]
   \<and> Unmarshal_anthropicResponse exampleWorld exampleAnthropicReply = Inr exampleAnthropicResponse
   \<and> (\<exists>resp. fst (AnthropicBackend_Invoke exampleWorld \<lparr>ab_apiKey = ''sk-ant-test''\<rparr>
          (zeroInvokeRequest\<lparr>req_Model := ModelHaiku45, req_System := ''Be brief'',
             req_Messages := [UserMessage [TextBlock ''Hello'', FileBlock ''/nonexistent/file.pdf'']]\<rparr>)) =
            Inr (Some resp)
          \<and> resp_Content resp = [\<lparr>rc_Type = ''text'', rc_Text = ''Hello ''\<rparr>,
                                  \<lparr>rc_Type = ''text'', rc_Text = ''world''\<rparr>]
          \<and> usage_InputTokens (resp_Usage resp) = 12
          \<and> usage_OutputTokens (resp_Usage resp) = 5)"
proof -
  let ?req = "zeroInvokeRequest\<lparr>req_Model := ModelHaiku45, req_System := ''Be brief'',
         req_Messages := [UserMessage [TextBlock ''Hello'', FileBlock ''/nonexistent/file.pdf'']]\<rparr>"
  let ?b = "\<lparr>ab_apiKey = ''sk-ant-test''\<rparr>"
  let ?body = "''{model:claude-haiku-4-5-20251001,messages:[{role:user,content:[{type:text,text:Hello},{type:text,text:[File not available locally: /nonexistent/file.pdf]}]}]}''"
  let ?msgs = "[JObject [(''role'', JString ''user''),
                (''content'', JArray
                   [JObject [(''type'', JString ''text''), (''text'', JString ''Hello'')],
                    JObject [(''type'', JString ''text''),
                             (''text'', JString ''[File not available locally: /nonexistent/file.pdf]'')]])]]"
  note t = AnthropicBackend_Invoke_request_and_reply [of exampleWorld ?req
      ?body ?b exampleAnthropicReply exampleAnthropicResponse]
  note u = AnthropicBackend_Invoke_request_and_reply [of exampleWorld
      "zeroInvokeRequest\<lparr>req_MaxTokens := 2048\<rparr>"]
  have mm: "MapModel ModelHaiku45 = ''claude-haiku-4-5-20251001''"
    by (simp add: MapModel_def modelMap_def ModelHaiku45_def)
  from t have m: "areq_Model (Invoke_apiReq exampleWorld ?req) = ''claude-haiku-4-5-20251001''"
    by (simp add: mm)
  from t have k: "areq_MaxTokens (Invoke_apiReq exampleWorld ?req) = 1024"
    by (simp add: zeroInvokeRequest_def)
  from u have k2: "areq_MaxTokens (Invoke_apiReq exampleWorld (zeroInvokeRequest\<lparr>req_MaxTokens := 2048\<rparr>)) = 2048"
    by (simp add: zeroInvokeRequest_def)
  from t have y: "areq_System (Invoke_apiReq exampleWorld ?req) = ''Be brief''"
    by simp
  have f: "ReadFile exampleWorld ''/nonexistent/file.pdf'' = None" by (simp add: exampleWorld_def)
  from t have "areq_Messages (Invoke_apiReq exampleWorld ?req) =
        map (\<lambda>msg. JObject [(''role'', JString (msg_Role msg)),
                             (''content'', JArray (map (convertContentBlock (ReadFile exampleWorld))
                                                       (msg_Content msg)))])
            (req_Messages ?req)" by blast
  then have g: "areq_Messages (Invoke_apiReq exampleWorld ?req) = ?msgs"
    by (simp add: UserMessage_def TextBlock_def FileBlock_def zeroContentBlock_def
        convertContentBlock_def convertEFSDocument_def f)
  have mar: "Marshal_anthropicRequest exampleWorld apiReq =
      Inr (''{model:'' @ areq_Model apiReq @ '',messages:''
           @ render (JArray (areq_Messages apiReq)) @ ''}'')" for apiReq
    by (simp add: exampleWorld_def)
  have h1: "Marshal_anthropicRequest exampleWorld (Invoke_apiReq exampleWorld ?req) = Inr ?body"
    unfolding mar m g by simp
  from t h1 have s: "snd (AnthropicBackend_Invoke exampleWorld ?b ?req) =
      [HttpSent \<lparr>hr_Method = ''POST'',
                 hr_URL = ''https://api.anthropic.com/v1/messages'',
                 hr_Header = [(''Content-Type'', ''application/json''),
                              (''X-Api-Key'', ab_apiKey ?b),
                              (''Anthropic-Version'', ''2023-06-01'')],
                 hr_Body = ?body\<rparr>]" by blast
  have s': "snd (AnthropicBackend_Invoke exampleWorld ?b ?req) =
      [HttpSent \<lparr>hr_Method = ''POST'',
                 hr_URL = ''https://api.anthropic.com/v1/messages'',
                 hr_Header = [(''Content-Type'', ''application/json''),
                              (''X-Api-Key'', ''sk-ant-test''),
                              (''Anthropic-Version'', ''2023-06-01'')],
                 hr_Body = ?body\<rparr>]"
    unfolding s by simp
  have h2: "HttpDo exampleWorld \<lparr>hr_Method = ''POST'',
                 hr_URL = ''https://api.anthropic.com/v1/messages'',
                 hr_Header = [(''Content-Type'', ''application/json''),
                              (''X-Api-Key'', ab_apiKey ?b),
                              (''Anthropic-Version'', ''2023-06-01'')],
                 hr_Body = ?body\<rparr> = Responded 200 exampleAnthropicReply"
    by (simp add: exampleWorld_def)
  have h3: "Unmarshal_anthropicResponse exampleWorld exampleAnthropicReply = Inr exampleAnthropicResponse"
    by (simp add: exampleWorld_def)
  from t h1 h2 h3 obtain resp where
    r: "fst (AnthropicBackend_Invoke exampleWorld ?b ?req) = Inr (Some resp)"
    and c: "resp_Content resp = map (\<lambda>block. \<lparr>rc_Type = ''text'', rc_Text = acb_Text block\<rparr>)
                   (filter (\<lambda>block. acb_Type block = ''text'') (aresp_Content exampleAnthropicResponse))"
    and i: "usage_InputTokens (resp_Usage resp) = au_InputTokens (aresp_Usage exampleAnthropicResponse)"
    and o: "usage_OutputTokens (resp_Usage resp) = au_OutputTokens (aresp_Usage exampleAnthropicResponse)"
    by blast
  have c': "resp_Content resp = [\<lparr>rc_Type = ''text'', rc_Text = ''Hello ''\<rparr>,
                                  \<lparr>rc_Type = ''text'', rc_Text = ''world''\<rparr>]"
    unfolding c by (simp add: exampleAnthropicResponse_def)
  have i': "usage_InputTokens (resp_Usage resp) = 12" unfolding i by (simp add: exampleAnthropicResponse_def)
  have o': "usage_OutputTokens (resp_Usage resp) = 5" unfolding o by (simp add: exampleAnthropicResponse_def)
  from m k k2 y g h1 s' h3 r c' i' o' show ?thesis by blast
qed


section \<open>The remote-service backend: proofs\<close>

lemma call_decode_governor_error:
  assumes "Unmarshal_ErrorResponse w payload = Some errResp" and "er_Error errResp \<noteq> []"
  shows "call_decode w unmarshal payload =
     Inl (GovernorErr \<lparr>ge_Code = er_Error errResp, ge_Msg = er_Message errResp,
                       ge_AllowedModels = er_AllowedModels errResp,
                       ge_BudgetRemaining = er_BudgetRemaining errResp,
                       ge_RetryAfterSec = er_RetryAfterSec errResp\<rparr>)"
  using assms by (simp add: call_decode_def)

lemma call_decode_result:
  assumes "\<not> (\<exists>errResp. Unmarshal_ErrorResponse w payload = Some errResp \<and> er_Error errResp \<noteq> [])"
  shows "call_decode w unmarshal payload =
     (case unmarshal payload of
        Inl err \<Rightarrow> Inl (PlainError (''failed to unmarshal response: '' @ err))
      | Inr result \<Rightarrow> Inr result)"
  using assms by (auto simp: call_decode_def split: option.split)

lemma LambdaBackend_call_output:
  assumes "ensureClient w (lb_lambdaClient b) = Inr client"
    and "LambdaInvoke w client (lb_functionName b) payloadBytes = Inr output"
  shows "fst (LambdaBackend_call w b (Inr payloadBytes) unmarshal) =
     (case out_FunctionError output of
        Some functionError \<Rightarrow> Inl (PlainError (''governor function error: '' @ functionError))
      | None \<Rightarrow> call_decode w unmarshal (out_Payload output))"
  using assms by (simp add: LambdaBackend_call_def Let_def split: option.split)

lemma Lambda_invoke_as_call:
  assumes "Lambda_Available g"
  shows "fst (Lambda_invoke w g marshalled unmarshal) =
     fst (LambdaBackend_call w (NewLambdaBackend (lg_functionName g) (lg_lambdaClient g))
            marshalled unmarshal)"
    and "snd (snd (Lambda_invoke w g marshalled unmarshal)) =
     snd (snd (LambdaBackend_call w (NewLambdaBackend (lg_functionName g) (lg_lambdaClient g))
            marshalled unmarshal))"
  using assms
  by (simp_all add: Lambda_invoke_def LambdaBackend_call_def NewLambdaBackend_def Let_def
      split: sum.split option.split)

text \<open>
  Claim C3. For every reply of the invocation channel to \<open>call\<close> of the Lambda backend:
  a function error is returned as a plain error, not a \<open>GovernorError\<close>; otherwise, if
  the payload decodes as an \<open>ErrorResponse\<close> with a non-empty \<open>error\<close>, \<open>call\<close> returns
  the \<open>GovernorError\<close> carrying its code, message, allowed models, remaining budget and
  retry delay; otherwise the payload is decoded as the expected result, which is returned
  (a payload that does not decode is a plain unmarshal error).
\<close>

theorem LambdaBackend_call_reply:
  assumes "ensureClient w (lb_lambdaClient b) = Inr client"
    and "LambdaInvoke w client (lb_functionName b) payloadBytes = Inr output"
  shows "(out_FunctionError output = Some functionError \<longrightarrow>
            fst (LambdaBackend_call w b (Inr payloadBytes) unmarshal) =
              Inl (PlainError (''governor function error: '' @ functionError))
            \<and> IsGovernorError (PlainError (''governor function error: '' @ functionError)) = None)
         \<and> (out_FunctionError output = None
             \<and> Unmarshal_ErrorResponse w (out_Payload output) = Some errResp
             \<and> er_Error errResp \<noteq> [] \<longrightarrow>
            fst (LambdaBackend_call w b (Inr payloadBytes) unmarshal) =
              Inl (GovernorErr \<lparr>ge_Code = er_Error errResp, ge_Msg = er_Message errResp,
                                ge_AllowedModels = er_AllowedModels errResp,
                                ge_BudgetRemaining = er_BudgetRemaining errResp,
                                ge_RetryAfterSec = er_RetryAfterSec errResp\<rparr>))
         \<and> (out_FunctionError output = None
             \<and> \<not> (\<exists>e. Unmarshal_ErrorResponse w (out_Payload output) = Some e \<and> er_Error e \<noteq> []) \<longrightarrow>
            fst (LambdaBackend_call w b (Inr payloadBytes) unmarshal) =
              (case unmarshal (out_Payload output) of
                 Inl err \<Rightarrow> Inl (PlainError (''failed to unmarshal response: '' @ err))
               | Inr result \<Rightarrow> Inr result))"
proof (intro conjI impI)
  assume "out_FunctionError output = Some functionError"
  then show "fst (LambdaBackend_call w b (Inr payloadBytes) unmarshal) =
              Inl (PlainError (''governor function error: '' @ functionError))"
    by (simp add: LambdaBackend_call_output [OF assms])
next
  show "IsGovernorError (PlainError (''governor function error: '' @ functionError)) = None"
    by (simp add: IsGovernorError_def)
next
  assume a: "out_FunctionError output = None
             \<and> Unmarshal_ErrorResponse w (out_Payload output) = Some errResp
             \<and> er_Error errResp \<noteq> []"
  then have "call_decode w unmarshal (out_Payload output) =
     Inl (GovernorErr \<lparr>ge_Code = er_Error errResp, ge_Msg = er_Message errResp,
                       ge_AllowedModels = er_AllowedModels errResp,
                       ge_BudgetRemaining = er_BudgetRemaining errResp,
                       ge_RetryAfterSec = er_RetryAfterSec errResp\<rparr>)"
    using call_decode_governor_error by blast
  then show "fst (LambdaBackend_call w b (Inr payloadBytes) unmarshal) =
              Inl (GovernorErr \<lparr>ge_Code = er_Error errResp, ge_Msg = er_Message errResp,
                                ge_AllowedModels = er_AllowedModels errResp,
                                ge_BudgetRemaining = er_BudgetRemaining errResp,
                                ge_RetryAfterSec = er_RetryAfterSec errResp\<rparr>)"
    using a by (simp add: LambdaBackend_call_output [OF assms])
next
  assume a: "out_FunctionError output = None
             \<and> \<not> (\<exists>e. Unmarshal_ErrorResponse w (out_Payload output) = Some e \<and> er_Error e \<noteq> [])"
  then have "call_decode w unmarshal (out_Payload output) =
     (case unmarshal (out_Payload output) of
        Inl err \<Rightarrow> Inl (PlainError (''failed to unmarshal response: '' @ err))
      | Inr result \<Rightarrow> Inr result)"
    using call_decode_result by blast
  then show "fst (LambdaBackend_call w b (Inr payloadBytes) unmarshal) =
              (case unmarshal (out_Payload output) of
                 Inl err \<Rightarrow> Inl (PlainError (''failed to unmarshal response: '' @ err))
               | Inr result \<Rightarrow> Inr result)"
    using a by (simp add: LambdaBackend_call_output [OF assms])
qed

text \<open>
  The four replies of the example world: a function error, an error envelope, a success
  envelope and a payload that is not JSON.
\<close>

theorem LambdaBackend_call_reply_witness:
  "ensureClient exampleWorld (lb_lambdaClient (NewLambdaBackend ''governor'' None)) = Inr 0
   \<and> LambdaInvoke exampleWorld 0 ''broken'' ''{}'' =
        Inr \<lparr>out_FunctionError = Some ''Unhandled'', out_Payload = []\<rparr>
   \<and> fst (LambdaBackend_call exampleWorld (NewLambdaBackend ''broken'' None) (Inr ''{}'')
             (Unmarshal_InvokeResponse exampleWorld)) =
        Inl (PlainError ''governor function error: Unhandled'')
   \<and> LambdaInvoke exampleWorld 0 ''over-budget'' ''{}'' =
        Inr \<lparr>out_FunctionError = None, out_Payload = exampleErrorReply\<rparr>
   \<and> Unmarshal_ErrorResponse exampleWorld exampleErrorReply = Some exampleErrorResponse
   \<and> er_Error exampleErrorResponse \<noteq> []
   \<and> fst (LambdaBackend_call exampleWorld (NewLambdaBackend ''over-budget'' None) (Inr ''{}'')
             (Unmarshal_InvokeResponse exampleWorld)) =
        Inl (GovernorErr \<lparr>ge_Code = ''budget_exceeded'', ge_Msg = ''daily budget exceeded'',
                          ge_AllowedModels = [''m1''], ge_BudgetRemaining = Some zeroBudgetInfo,
                          ge_RetryAfterSec = 30\<rparr>)
   \<and> LambdaInvoke exampleWorld 0 ''governor'' ''{}'' =
        Inr \<lparr>out_FunctionError = None, out_Payload = exampleReply\<rparr>
   \<and> \<not> (\<exists>e. Unmarshal_ErrorResponse exampleWorld exampleReply = Some e \<and> er_Error e \<noteq> [])
   \<and> fst (LambdaBackend_call exampleWorld (NewLambdaBackend ''governor'' None) (Inr ''{}'')
             (Unmarshal_InvokeResponse exampleWorld)) = Inr (exampleResponse ''ok'')
   \<and> fst (LambdaBackend_call exampleWorld (NewLambdaBackend ''garbled'' None) (Inr ''{}'')
             (Unmarshal_InvokeResponse exampleWorld)) =
        Inl (PlainError ''failed to unmarshal response: invalid character'')"
proof -
  let ?g = "NewLambdaBackend ''governor'' None"
  let ?k = "NewLambdaBackend ''broken'' None"
  let ?o = "NewLambdaBackend ''over-budget'' None"
  let ?x = "NewLambdaBackend ''garbled'' None"
  let ?u = "Unmarshal_InvokeResponse exampleWorld"
  have c: "ensureClient exampleWorld (lb_lambdaClient ?g) = Inr 0"
    "ensureClient exampleWorld (lb_lambdaClient ?k) = Inr 0"
    "ensureClient exampleWorld (lb_lambdaClient ?o) = Inr 0"
    "ensureClient exampleWorld (lb_lambdaClient ?x) = Inr 0"
    by (simp_all add: ensureClient_def NewLambdaBackend_def exampleWorld_def)
  have n: "lb_functionName ?g = ''governor''" "lb_functionName ?k = ''broken''"
    "lb_functionName ?o = ''over-budget''" "lb_functionName ?x = ''garbled''"
    by (simp_all add: NewLambdaBackend_def)
  have i: "LambdaInvoke exampleWorld 0 ''broken'' ''{}'' =
        Inr \<lparr>out_FunctionError = Some ''Unhandled'', out_Payload = []\<rparr>"
    "LambdaInvoke exampleWorld 0 ''over-budget'' ''{}'' =
        Inr \<lparr>out_FunctionError = None, out_Payload = exampleErrorReply\<rparr>"
    "LambdaInvoke exampleWorld 0 ''governor'' ''{}'' =
        Inr \<lparr>out_FunctionError = None, out_Payload = exampleReply\<rparr>"
    "LambdaInvoke exampleWorld 0 ''garbled'' ''{}'' =
        Inr \<lparr>out_FunctionError = None, out_Payload = ''<html>''\<rparr>"
    by (simp_all add: exampleWorld_def)
  have j: "LambdaInvoke exampleWorld 0 (lb_functionName ?k) ''{}'' =
        Inr \<lparr>out_FunctionError = Some ''Unhandled'', out_Payload = []\<rparr>"
    "LambdaInvoke exampleWorld 0 (lb_functionName ?o) ''{}'' =
        Inr \<lparr>out_FunctionError = None, out_Payload = exampleErrorReply\<rparr>"
    "LambdaInvoke exampleWorld 0 (lb_functionName ?g) ''{}'' =
        Inr \<lparr>out_FunctionError = None, out_Payload = exampleReply\<rparr>"
    "LambdaInvoke exampleWorld 0 (lb_functionName ?x) ''{}'' =
        Inr \<lparr>out_FunctionError = None, out_Payload = ''<html>''\<rparr>"
    unfolding n by (rule i)+
  have e1: "Unmarshal_ErrorResponse exampleWorld exampleErrorReply = Some exampleErrorResponse"
    and e2: "er_Error exampleErrorResponse \<noteq> []"
    and e3: "\<not> (\<exists>e. Unmarshal_ErrorResponse exampleWorld exampleReply = Some e \<and> er_Error e \<noteq> [])"
    and e4: "\<not> (\<exists>e. Unmarshal_ErrorResponse exampleWorld ''<html>'' = Some e \<and> er_Error e \<noteq> [])"
    by (simp_all add: exampleWorld_def exampleErrorResponse_def zeroErrorResponse_def
        exampleReply_def exampleErrorReply_def)
  have d3: "Unmarshal_InvokeResponse exampleWorld exampleReply = Inr (exampleResponse ''ok'')"
    and d4: "Unmarshal_InvokeResponse exampleWorld ''<html>'' = Inl ''invalid character''"
    by (simp_all add: exampleWorld_def exampleReply_def)
  have r1: "fst (LambdaBackend_call exampleWorld ?k (Inr ''{}'') ?u) =
        Inl (PlainError ''governor function error: Unhandled'')"
    using LambdaBackend_call_reply [OF c(2) j(1),
        where functionError = "''Unhandled''" and unmarshal = ?u] by simp
  have r2: "fst (LambdaBackend_call exampleWorld ?o (Inr ''{}'') ?u) =
        Inl (GovernorErr \<lparr>ge_Code = ''budget_exceeded'', ge_Msg = ''daily budget exceeded'',
                          ge_AllowedModels = [''m1''], ge_BudgetRemaining = Some zeroBudgetInfo,
                          ge_RetryAfterSec = 30\<rparr>)"
    using LambdaBackend_call_reply [OF c(3) j(2),
        where errResp = exampleErrorResponse and unmarshal = ?u] e1 e2
    by (simp add: exampleErrorResponse_def)
  have r3: "fst (LambdaBackend_call exampleWorld ?g (Inr ''{}'') ?u) = Inr (exampleResponse ''ok'')"
    using LambdaBackend_call_reply [OF c(1) j(3), where unmarshal = ?u] e3
    by (simp add: d3)
  have r4: "fst (LambdaBackend_call exampleWorld ?x (Inr ''{}'') ?u) =
        Inl (PlainError ''failed to unmarshal response: invalid character'')"
    using LambdaBackend_call_reply [OF c(4) j(4), where unmarshal = ?u] e4
    by (simp add: d4)
  from c(1) i(1) r1 i(2) e1 e2 r2 i(3) e3 r3 r4 show ?thesis by blast
qed


section \<open>The facade: proofs\<close>

lemma fold_applyOption_backend:
  "gov_backend (fold applyOption opts g) =
     (if backendOptions opts = [] then gov_backend g else last (backendOptions opts))"
proof (induction opts arbitrary: g)
  case Nil
  then show ?case by simp
next
  case (Cons opt opts)
  then show ?case by (cases opt) simp_all
qed

lemma fold_applyOption_functionName:
  "gov_functionName (fold applyOption opts g) =
     (if functionNameOptions opts = [] then gov_functionName g else last (functionNameOptions opts))"
proof (induction opts arbitrary: g)
  case Nil
  then show ?case by simp
next
  case (Cons opt opts)
  then show ?case by (cases opt) simp_all
qed

lemma fold_applyOption_lambdaClient:
  "gov_lambdaClient (fold applyOption opts g) =
     (if lambdaClientOptions opts = [] then gov_lambdaClient g else last (lambdaClientOptions opts))"
proof (induction opts arbitrary: g)
  case Nil
  then show ?case by simp
next
  case (Cons opt opts)
  then show ?case by (cases opt) simp_all
qed

lemma NewGovernor_backend:
  "gov_backend (NewGovernor w opts) =
     Some (case explicitBackend opts of
             Some backend \<Rightarrow> backend
           | None \<Rightarrow>
               if configuredFunctionName w opts \<noteq> [] then
                 BLambda (NewLambdaBackend (configuredFunctionName w opts) (configuredLambdaClient opts))
               else if Getenv w ''ANTHROPIC_API_KEY'' \<noteq> [] then BAnthropic (NewAnthropicBackend w)
               else BMock NewMockBackend)"
  by (auto simp: NewGovernor_def Let_def fold_applyOption_backend fold_applyOption_functionName
      fold_applyOption_lambdaClient explicitBackend_def configuredFunctionName_def
      configuredLambdaClient_def)

lemma Available_iff:
  "Available g \<longleftrightarrow> \<not> (\<exists>backend. gov_backend g = Some backend \<and> isMock backend)"
  by (auto simp: Available_def isMock_def split: option.splits Backend.splits)

text \<open>
  Claim C4. \<open>NewGovernor\<close> selects the backend given explicitly, whatever else is
  configured; otherwise the Lambda backend if a function name is configured (by option or
  environment); otherwise the Anthropic backend if \<open>ANTHROPIC_API_KEY\<close> is set; otherwise
  the mock. \<open>Available\<close> holds exactly when the selected backend is not the mock.
\<close>

theorem NewGovernor_backend_selection:
  "gov_backend (NewGovernor w opts) =
     Some (case explicitBackend opts of
             Some backend \<Rightarrow> backend
           | None \<Rightarrow>
               if configuredFunctionName w opts \<noteq> [] then
                 BLambda (NewLambdaBackend (configuredFunctionName w opts) (configuredLambdaClient opts))
               else if Getenv w ''ANTHROPIC_API_KEY'' \<noteq> [] then BAnthropic (NewAnthropicBackend w)
               else BMock NewMockBackend)
   \<and> (Available (NewGovernor w opts) \<longleftrightarrow>
        (\<exists>backend. gov_backend (NewGovernor w opts) = Some backend \<and> \<not> isMock backend))"
proof
  show "gov_backend (NewGovernor w opts) =
     Some (case explicitBackend opts of
             Some backend \<Rightarrow> backend
           | None \<Rightarrow>
               if configuredFunctionName w opts \<noteq> [] then
                 BLambda (NewLambdaBackend (configuredFunctionName w opts) (configuredLambdaClient opts))
               else if Getenv w ''ANTHROPIC_API_KEY'' \<noteq> [] then BAnthropic (NewAnthropicBackend w)
               else BMock NewMockBackend)"
    by (rule NewGovernor_backend)
  then obtain backend where "gov_backend (NewGovernor w opts) = Some backend" by blast
  then show "Available (NewGovernor w opts) \<longleftrightarrow>
        (\<exists>backend. gov_backend (NewGovernor w opts) = Some backend \<and> \<not> isMock backend)"
    by (simp add: Available_iff)
qed

text \<open>
  The five backend selection tests of the package.
\<close>

theorem NewGovernor_backend_selection_witness:
  "gov_backend (NewGovernor (exampleEnv [] []) []) = Some (BMock NewMockBackend)
   \<and> \<not> Available (NewGovernor (exampleEnv [] []) [])
   \<and> gov_backend (NewGovernor (exampleEnv ''my-func'' []) []) =
        Some (BLambda (NewLambdaBackend ''my-func'' None))
   \<and> Available (NewGovernor (exampleEnv ''my-func'' []) [])
   \<and> gov_backend (NewGovernor (exampleEnv [] ''sk-ant-test'') [WithFunctionName ''explicit-func'']) =
        Some (BLambda (NewLambdaBackend ''explicit-func'' None))
   \<and> gov_backend (NewGovernor (exampleEnv [] ''sk-ant-test'') []) =
        Some (BAnthropic \<lparr>ab_apiKey = ''sk-ant-test''\<rparr>)
   \<and> Available (NewGovernor (exampleEnv [] ''sk-ant-test'') [])
   \<and> gov_backend (NewGovernor (exampleEnv ''my-func'' ''sk-ant-test'')
        [WithBackend (Some (BMock NewMockBackend))]) = Some (BMock NewMockBackend)
   \<and> \<not> Available (NewGovernor (exampleEnv ''my-func'' ''sk-ant-test'')
        [WithBackend (Some (BMock NewMockBackend))])"
  using NewGovernor_backend_selection [of "exampleEnv [] []" "[]"]
    NewGovernor_backend_selection [of "exampleEnv ''my-func'' []" "[]"]
    NewGovernor_backend_selection [of "exampleEnv [] ''sk-ant-test''" "[WithFunctionName ''explicit-func'']"]
    NewGovernor_backend_selection [of "exampleEnv [] ''sk-ant-test''" "[]"]
    NewGovernor_backend_selection [of "exampleEnv ''my-func'' ''sk-ant-test''"
      "[WithBackend (Some (BMock NewMockBackend))]"]
  by (simp add: explicitBackend_def configuredFunctionName_def configuredLambdaClient_def
      exampleEnv_def exampleWorld_def NewAnthropicBackend_def isMock_def)

lemma LambdaBackend_Invoke_sent:
  assumes "ensureClient w (lb_lambdaClient lb) = Inr client"
    and "Marshal_InvokeRequest w req = Inr payload"
  shows "snd (snd (LambdaBackend_Invoke w lb req)) = [LambdaSent (lb_functionName lb) payload]"
  using assms
  by (simp add: LambdaBackend_Invoke_def LambdaBackend_call_def Let_def
      split: sum.split option.split prod.split)

lemma Backend_Invoke_Lambda_sent:
  "snd (snd (Backend_Invoke w (BLambda lb) req)) = snd (snd (LambdaBackend_Invoke w lb req))"
  by (cases "LambdaBackend_Invoke w lb req") simp

lemma Invoke_defaults_fields:
  "Invoke_defaults g req =
     req\<lparr>req_Action := (if req_Action req = [] then ''invoke'' else req_Action req),
         req_ExecutionRunID := (if req_ExecutionRunID req = [] then gov_executionRunID g
                                else req_ExecutionRunID req)\<rparr>"
  by (simp add: Invoke_defaults_def Let_def)

lemma Governor_Invoke_delegates:
  assumes "gov_backend g = Some backend"
  shows "fst (Governor_Invoke w g req) = fst (Backend_Invoke w backend (Invoke_defaults g req))"
    and "snd (snd (Governor_Invoke w g req)) =
           snd (snd (Backend_Invoke w backend (Invoke_defaults g req)))"
  using assms by (simp_all add: Governor_Invoke_def Let_def split: prod.split)

lemma Lambda_Invoke_requires_id:
  assumes "lg_executionRunID lg = []" and "req_ExecutionRunID req = []"
  shows "Lambda_Invoke w lg req =
     (Inl (PlainError ''executionRunId is required: set EXECUTION_RUN_ID env var or use WithExecutionRunID option''),
      lg, [])"
  using assms by (simp add: Lambda_Invoke_def Let_def)

lemma Governor_Invoke_Lambda_sends:
  assumes "gov_backend g = Some (BLambda lb)"
    and "ensureClient w (lb_lambdaClient lb) = Inr client"
    and "Marshal_InvokeRequest w (Invoke_defaults g req) = Inr payload"
  shows "snd (snd (Governor_Invoke w g req)) = [LambdaSent (lb_functionName lb) payload]"
proof -
  have "snd (snd (Governor_Invoke w g req)) =
      snd (snd (Backend_Invoke w (BLambda lb) (Invoke_defaults g req)))"
    using assms(1) by (rule Governor_Invoke_delegates(2))
  also have "\<dots> = snd (snd (LambdaBackend_Invoke w lb (Invoke_defaults g req)))"
    by (rule Backend_Invoke_Lambda_sent)
  also have "\<dots> = [LambdaSent (lb_functionName lb) payload]"
    using assms(2,3) by (rule LambdaBackend_Invoke_sent)
  finally show ?thesis .
qed

text \<open>
  Claim C1. \<open>Invoke\<close> defaults an empty action to \<open>invoke\<close> and an empty execution run
  id to the configured one; when the run id is still empty and the backend is the Lambda
  backend, it is to return a configuration error and send nothing. The \<open>Invoke\<close> of
  src/llm/governor.go does so (last conjunct). The \<open>Invoke\<close> of the facade with backends
  does not: for \<open>NewGovernor(WithFunctionName("my-func"))\<close> in an empty environment and the
  zero request, the backend is the Lambda backend, the run id is still empty after
  defaulting, and yet the request is sent to \<open>my-func\<close> with its empty
  \<open>executionRunId\<close> and the reply is returned.
\<close>

theorem Governor_Invoke_sends_empty_run_id:
  "gov_backend (NewGovernor exampleWorld [WithFunctionName ''my-func'']) =
      Some (BLambda (NewLambdaBackend ''my-func'' None))
   \<and> req_Action
        (Invoke_defaults (NewGovernor exampleWorld [WithFunctionName ''my-func'']) zeroInvokeRequest) =
      ''invoke''
   \<and> req_ExecutionRunID
        (Invoke_defaults (NewGovernor exampleWorld [WithFunctionName ''my-func'']) zeroInvokeRequest) = []
   \<and> fst (Governor_Invoke exampleWorld (NewGovernor exampleWorld [WithFunctionName ''my-func''])
            zeroInvokeRequest) = Inr (Some (exampleResponse ''ok''))
   \<and> snd (snd (Governor_Invoke exampleWorld (NewGovernor exampleWorld [WithFunctionName ''my-func''])
            zeroInvokeRequest)) =
        [LambdaSent ''my-func'' ''{action:invoke,model:,executionRunId:}'']
   \<and> Lambda_Invoke exampleWorld
        \<lparr>lg_functionName = ''my-func'', lg_executionRunID = [], lg_lambdaClient = None\<rparr>
        zeroInvokeRequest =
        (Inl (PlainError ''executionRunId is required: set EXECUTION_RUN_ID env var or use WithExecutionRunID option''),
         \<lparr>lg_functionName = ''my-func'', lg_executionRunID = [], lg_lambdaClient = None\<rparr>, [])"
  by (simp add: NewGovernor_def Governor_Invoke_def Invoke_defaults_def Let_def
      LambdaBackend_Invoke_def LambdaBackend_call_def call_decode_def ensureClient_def
      NewLambdaBackend_def exampleWorld_def zeroInvokeRequest_def zeroErrorResponse_def
      exampleReply_def exampleErrorReply_def Lambda_Invoke_def)

end
